theory Spec2Isabelle
  imports Main "HOL-Library.Word"
begin

section \<open>The wagmi wallet strategy\<close>

text \<open>
  A shallow embedding of \<^verbatim>\<open>WagmiStrategy\<close> (strategies/wagmi/src/WagmiStrategy.ts), the
  adapter that implements the abstract \<^verbatim>\<open>Strategy\<close> class on top of the wagmi connector
  library and ethers.

  Conventions of the model.
  \<^item> A method is a function of the adapter's fields (\<open>this\<close>) and of the outcomes of the
    external calls it awaits. An outcome is a sum: \<open>Inl\<close> a thrown value (a rejected
    promise), \<open>Inr\<close> the value the call resolves to. The calls are those of wagmi, of
    ethers and of the helpers in \<^verbatim>\<open>utils/ethereum.js\<close> (\<^verbatim>\<open>getEthersSigner\<close>), whose code
    is not part of the two source files.
  \<^item> A method returns how its own promise settles (\<open>Inl\<close> rejected, \<open>Inr\<close> resolved), the
    fields afterwards when it writes them, and the list of external calls it made, in
    order (\<open>effect\<close>).
  \<^item> \<open>None\<close> stands for both \<^verbatim>\<open>null\<close> and \<^verbatim>\<open>undefined\<close>: every test the source applies to
    a nullable value (\<^verbatim>\<open>??\<close>, \<^verbatim>\<open>?.\<close>, \<^verbatim>\<open>!x\<close>, \<^verbatim>\<open>if (x)\<close>) treats the two alike.
  \<^item> One callback of the event loop runs from start to end. \<^verbatim>\<open>connect\<close> takes, for each
    of its awaits, the callbacks of the adapter that the event loop runs while the
    method is suspended there. The other methods are modelled on their own: what
    another callback does to the fields while one of them is suspended is outside the
    model of that method.
\<close>

subsection \<open>Values\<close>

text \<open>
  An address has the TypeScript type \<^verbatim>\<open>`0x${string}`\<close> (line 70 of the source): the text
  \<^verbatim>\<open>0x\<close> followed by any string.
\<close>

datatype address = Address string

fun addressString :: "address \<Rightarrow> string" where
  "addressString (Address digits) = ''0x'' @ digits"

text \<open>JavaScript's truth value of a string: only the empty string is falsy.\<close>

definition truthy :: "string \<Rightarrow> bool" where
  "truthy s = (s \<noteq> [])"

text \<open>A thrown value; \<^verbatim>\<open>new Error(message)\<close> is \<open>Error message\<close>.\<close>

datatype thrown = Error string

text \<open>
  An \<^verbatim>\<open>ethers.Signer\<close> object is opaque to the adapter: a handle. So are a transaction
  request and the listeners the host application passes in.
\<close>

datatype ethers_signer = EthersSigner nat

datatype transaction_request = TransactionRequest nat

datatype arweave_transaction = ArweaveTransaction nat

text \<open>\<^verbatim>\<open>xs[0]\<close> of a JavaScript array: \<^verbatim>\<open>undefined\<close> when the array is empty.\<close>

fun first :: "'a list \<Rightarrow> 'a option" where
  "first [] = None"
| "first (x # xs) = Some x"

text \<open>The external calls a method makes, and what it writes to the console.\<close>

datatype effect =
    WagmiConnect
  | WagmiDisconnect
  | WagmiGetAccount
  | GetEthersSigner
  | SignerSignMessage ethers_signer string
  | SignerSendTransaction ethers_signer transaction_request
  | ConsoleError string thrown
  | ConsoleErrorValue thrown

text \<open>
  The fields of the class that its methods write. The identity fields (\<^verbatim>\<open>id\<close>, \<^verbatim>\<open>name\<close>,
  \<^verbatim>\<open>description\<close>, \<^verbatim>\<open>theme\<close>, \<^verbatim>\<open>logo\<close>) are set once by the constructor and
  \<^verbatim>\<open>config\<close> is a reference to the external connector store, modelled below.
\<close>

record WagmiStrategy =
  signer :: "ethers_signer option"
  account :: "address option"
  unsubscribeAccount :: "nat option"

subsection \<open>Disconnecting\<close>


subsection \<open>Identity queries\<close>

text \<open>\<^verbatim>\<open>getActiveAddress()\<close>, lines 147 to 149: \<^verbatim>\<open>this.account ?? ""\<close>.\<close>

definition getActiveAddress :: "WagmiStrategy \<Rightarrow> (thrown + string) \<times> effect list" where
  "getActiveAddress this =
     (Inr (case account this of None \<Rightarrow> '''' | Some a \<Rightarrow> addressString a), [])"

text \<open>
  \<^verbatim>\<open>getAllAddresses()\<close>, lines 155 to 158. \<open>addresses\<close> is the \<^verbatim>\<open>addresses\<close> field of what
  wagmi's synchronous \<^verbatim>\<open>getAccount(this.config)\<close> returns, \<^verbatim>\<open>undefined\<close> when no connection
  is active.
\<close>

definition getAllAddresses ::
  "address list option \<Rightarrow> WagmiStrategy \<Rightarrow> (thrown + string list) \<times> effect list" where
  "getAllAddresses addresses this =
     (Inr (case addresses of None \<Rightarrow> [] | Some as \<Rightarrow> map addressString as),
      [WagmiGetAccount])"

subsection \<open>Signing\<close>

text \<open>
  \<^verbatim>\<open>signMessage(message)\<close>, lines 160 to 165. \<open>signResult\<close> is the outcome of the signer's
  own \<^verbatim>\<open>signMessage\<close>.
\<close>

definition signMessage ::
  "thrown + string \<Rightarrow> string \<Rightarrow> WagmiStrategy \<Rightarrow> (thrown + string) \<times> effect list" where
  "signMessage signResult message this =
     (case signer this of
        None \<Rightarrow> (Inl (Error ''Signer not available''), [])
      | Some s \<Rightarrow> (signResult, [SignerSignMessage s message]))"

text \<open>
  \<^verbatim>\<open>signTransaction(transaction)\<close>, lines 167 to 175. \<open>sendResult\<close> is the outcome of the
  signer's \<^verbatim>\<open>sendTransaction\<close>, reduced to the \<^verbatim>\<open>hash\<close> of the response.
\<close>

definition signTransaction ::
  "thrown + string \<Rightarrow> transaction_request \<Rightarrow> WagmiStrategy
     \<Rightarrow> (thrown + string) \<times> effect list" where
  "signTransaction sendResult transaction this =
     (case signer this of
        None \<Rightarrow> (Inl (Error ''Signer not available''), [])
      | Some s \<Rightarrow> (sendResult, [SignerSendTransaction s transaction]))"

subsection \<open>Operations an ethereum wallet does not have\<close>

text \<open>Lines 252 to 268: each body is a single \<^verbatim>\<open>throw\<close>.\<close>

definition dispatch ::
  "arweave_transaction \<Rightarrow> WagmiStrategy \<Rightarrow> (thrown + unit) \<times> effect list" where
  "dispatch transaction this =
     (Inl (Error ''Method not available on ethereum wallets.''), [])"

definition addToken :: "string \<Rightarrow> WagmiStrategy \<Rightarrow> (thrown + unit) \<times> effect list" where
  "addToken addr this =
     (Inl (Error ''Method not available on ethereum wallets''), [])"

definition sign ::
  "arweave_transaction \<Rightarrow> WagmiStrategy \<Rightarrow> (thrown + arweave_transaction) \<times> effect list" where
  "sign transaction this =
     (Inl (Error ''Method not available on ethereum wallets - use signDataItem instead''), [])"

definition getWalletNames ::
  "WagmiStrategy \<Rightarrow> (thrown + (string \<times> string) list) \<times> effect list" where
  "getWalletNames this =
     (Inl (Error ''Method not available on ethereum wallets.''), [])"

text \<open>
  What the four messages have in common: the thrown value is an \<^verbatim>\<open>Error\<close> whose message
  starts with the words that name the missing capability.
\<close>

definition notAvailable :: "thrown \<Rightarrow> bool" where
  "notAvailable e =
     (case e of Error m \<Rightarrow> take 40 m = ''Method not available on ethereum wallets'')"

subsection \<open>The connector store\<close>

text \<open>
  What wagmi's store emits, reduced to the two fields the adapter reads: \<^verbatim>\<open>current\<close>, the
  id of the active connection or \<^verbatim>\<open>null\<close>, and \<^verbatim>\<open>connections\<close>, a \<^verbatim>\<open>Map\<close> from ids to
  connections, of which the adapter reads \<^verbatim>\<open>accounts\<close>.
\<close>

record connection =
  accounts :: "address list"

record wagmi_state =
  current :: "string option"
  connections :: "string \<rightharpoonup> connection"

text \<open>
  Lines 70 to 74, and again lines 192 to 194: the local \<^verbatim>\<open>newAccount\<close>. The guard
  \<^verbatim>\<open>if (current.current)\<close> is a truth test, so the empty id counts as no id;
  \<^verbatim>\<open>connections.get(id)?.accounts[0] ?? null\<close> is \<^verbatim>\<open>null\<close> when the map has no such id
  or the connection has no account.
\<close>

definition newAccount :: "wagmi_state \<Rightarrow> address option" where
  "newAccount state =
     (case current state of
        None \<Rightarrow> None
      | Some uid \<Rightarrow>
          if truthy uid
          then (case connections state uid of
                  None \<Rightarrow> None
                | Some c \<Rightarrow> first (accounts c))
          else None)"

text \<open>
  The words of the specification, for comparison: the currently active connection of an
  emission, and its first account. An emission has an active connection when \<^verbatim>\<open>current\<close>
  names one: it is an id, as the source tests it, and \<^verbatim>\<open>connections\<close> holds it.
\<close>

definition activeConnection :: "wagmi_state \<Rightarrow> connection option" where
  "activeConnection state =
     (case current state of
        None \<Rightarrow> None
      | Some uid \<Rightarrow> if uid = [] then None else connections state uid)"

definition firstActiveAccount :: "wagmi_state \<Rightarrow> address option" where
  "firstActiveAccount state =
     (case activeConnection state of
        None \<Rightarrow> None
      | Some c \<Rightarrow> (case accounts c of [] \<Rightarrow> None | a # _ \<Rightarrow> Some a))"

text \<open>
  The callback \<^verbatim>\<open>setupListeners\<close> installs, lines 69 to 87. It overwrites \<^verbatim>\<open>account\<close>;
  when the new account is truthy it starts \<^verbatim>\<open>getEthersSigner\<close> and returns without
  waiting for it, otherwise it clears \<^verbatim>\<open>signer\<close>.
\<close>

definition accountChanged :: "wagmi_state \<Rightarrow> WagmiStrategy \<Rightarrow> WagmiStrategy \<times> effect list" where
  "accountChanged state this =
     (let this1 = this\<lparr>account := newAccount state\<rparr> in
      if (case account this1 of None \<Rightarrow> False | Some a \<Rightarrow> truthy (addressString a))
      then (this1, [GetEthersSigner])
      else (this1\<lparr>signer := None\<rparr>, []))"

text \<open>
  What the event loop runs on the adapter between two methods, or while a method is
  suspended at an \<^verbatim>\<open>await\<close>: an emission of the store,
  delivered to the callback above, or the settling of a signer derivation that an earlier
  emission started (\<^verbatim>\<open>.then((signer) => { this.signer = signer })\<close> and
  \<^verbatim>\<open>.catch(console.error)\<close>, lines 80 to 83). The model lets a derivation settle at any
  time, also when none is pending: it has every run of the program and more.
\<close>

datatype task =
    Emission wagmi_state
  | SignerSettled "thrown + ethers_signer"

fun runTask :: "task \<Rightarrow> WagmiStrategy \<Rightarrow> WagmiStrategy \<times> effect list" where
  "runTask (Emission state) this = accountChanged state this"
| "runTask (SignerSettled (Inr s)) this = (this\<lparr>signer := Some s\<rparr>, [])"
| "runTask (SignerSettled (Inl error)) this = (this, [ConsoleErrorValue error])"

fun runTasks :: "task list \<Rightarrow> WagmiStrategy \<Rightarrow> WagmiStrategy" where
  "runTasks [] this = this"
| "runTasks (t # ts) this = runTasks ts (fst (runTask t this))"

fun isEmission :: "task \<Rightarrow> bool" where
  "isEmission (Emission state) = True"
| "isEmission (SignerSettled r) = False"

subsection \<open>Connecting\<close>

text \<open>
  The effects of a list of tasks, run one after the other from the given fields.
\<close>

fun tasksEffects :: "task list \<Rightarrow> WagmiStrategy \<Rightarrow> effect list" where
  "tasksEffects [] this = []"
| "tasksEffects (t # ts) this = snd (runTask t this) @ tasksEffects ts (fst (runTask t this))"

text \<open>
  \<^verbatim>\<open>connect()\<close>, lines 124 to 135. \<open>connectResult\<close> is the outcome of wagmi's
  \<^verbatim>\<open>connect(this.config, ...)\<close>, reduced to its \<^verbatim>\<open>accounts\<close> array; \<open>signerResult\<close> is the
  outcome of \<^verbatim>\<open>getEthersSigner(this.config)\<close>, which runs only when the first call
  resolved. Both awaits and both assignments are inside one \<^verbatim>\<open>try\<close>, whose \<^verbatim>\<open>catch\<close>
  logs and returns.

  The method is suspended at each \<^verbatim>\<open>await\<close>, and the event loop runs other callbacks of the
  adapter meanwhile: wagmi's connect writes to the store of \<^verbatim>\<open>this.config\<close>, to which the
  listener of \<^verbatim>\<open>setupListeners\<close> is subscribed. \<open>duringConnect\<close> are the tasks that run
  while wagmi's connect is awaited, \<open>duringSigner\<close> those that run while the signer
  derivation is awaited; each is any list, the empty one when nothing runs.
\<close>

definition connect ::
  "thrown + address list \<Rightarrow> task list \<Rightarrow> thrown + ethers_signer \<Rightarrow> task list
     \<Rightarrow> WagmiStrategy \<Rightarrow> (thrown + unit) \<times> WagmiStrategy \<times> effect list" where
  "connect connectResult duringConnect signerResult duringSigner this =
     (let this0 = runTasks duringConnect this;
          effects0 = WagmiConnect # tasksEffects duringConnect this
      in case connectResult of
        Inl error \<Rightarrow>
          (Inr (), this0,
           effects0 @ [ConsoleError ''[Arweave Wallet Kit] Error connecting to wallet:'' error])
      | Inr returned \<Rightarrow>
          (let this1 = this0\<lparr>account := first returned\<rparr>;
               this2 = runTasks duringSigner this1;
               effects2 = effects0 @ GetEthersSigner # tasksEffects duringSigner this1
           in case signerResult of
             Inl error \<Rightarrow>
               (Inr (), this2,
                effects2 @
                [ConsoleError ''[Arweave Wallet Kit] Error connecting to wallet:'' error])
           | Inr s \<Rightarrow> (Inr (), this2\<lparr>signer := Some s\<rparr>, effects2)))"

subsection \<open>Address events\<close>

text \<open>
  The store's subscriptions. \<^verbatim>\<open>config.subscribe(selector, callback)\<close> adds a callback and
  returns the closure that removes it; each call makes a subscription of its own, so a
  subscription has a key. The adapter subscribes two kinds of callback: the one of
  \<^verbatim>\<open>setupListeners\<close> and, for each call of \<^verbatim>\<open>addAddressEvent(listener)\<close>, one that
  forwards to \<^verbatim>\<open>listener\<close>. The host's listeners are opaque: handles.
\<close>

datatype address_listener = AddressListener nat

datatype callback =
    AccountCallback
  | AddressEventCallback address_listener

record store =
  subscriptions :: "(nat \<times> callback) list"
  nextKey :: nat

definition subscribe :: "callback \<Rightarrow> store \<Rightarrow> nat \<times> store" where
  "subscribe cb st =
     (nextKey st,
      st\<lparr>subscriptions := subscriptions st @ [(nextKey st, cb)],
         nextKey := Suc (nextKey st)\<rparr>)"

definition unsubscribe :: "nat \<Rightarrow> store \<Rightarrow> store" where
  "unsubscribe key st =
     st\<lparr>subscriptions := filter (\<lambda>(k, cb). k \<noteq> key) (subscriptions st)\<rparr>"

text \<open>Keys are fresh: every key in use is below the next one.\<close>

definition storeOk :: "store \<Rightarrow> bool" where
  "storeOk st = list_all (\<lambda>(k, cb). k < nextKey st) (subscriptions st)"

text \<open>
  A \<^verbatim>\<open>CustomEvent\<close> is made from its type string alone (line 208). The functions of type
  \<^verbatim>\<open>(e: CustomEvent) => void\<close> that the adapter meets are the closures
  \<^verbatim>\<open>addAddressEvent\<close> returns, \<^verbatim>\<open>(e) => unsubscribe()\<close> (line 202), and the host's own.
\<close>

datatype custom_event = CustomEvent string

datatype event_listener =
    Unsubscriber nat
  | HostListener nat

text \<open>What a run of callbacks does that the host can see.\<close>

datatype notice =
    AddressListenerCalled address_listener string
  | EventListenerCalled event_listener custom_event
  | External effect

text \<open>
  The callback of \<^verbatim>\<open>addAddressEvent\<close>, lines 190 to 197: the listener is called when
  \<^verbatim>\<open>newAccount\<close> is truthy.
\<close>

definition addressEventCallback :: "address_listener \<Rightarrow> wagmi_state \<Rightarrow> notice list" where
  "addressEventCallback listener state =
     (case current state of
        None \<Rightarrow> []
      | Some uid \<Rightarrow>
          if truthy uid
          then (case (case connections state uid of
                        None \<Rightarrow> None
                      | Some c \<Rightarrow> first (accounts c)) of
                  None \<Rightarrow> []
                | Some a \<Rightarrow>
                    if truthy (addressString a)
                    then [AddressListenerCalled listener (addressString a)]
                    else [])
          else [])"

text \<open>\<^verbatim>\<open>setupListeners()\<close>, lines 65 to 89, and \<^verbatim>\<open>cleanupListeners()\<close>, lines 91 to 95.\<close>

definition setupListeners :: "WagmiStrategy \<Rightarrow> store \<Rightarrow> WagmiStrategy \<times> store" where
  "setupListeners this st =
     (case subscribe AccountCallback st of
        (key, st') \<Rightarrow> (this\<lparr>unsubscribeAccount := Some key\<rparr>, st'))"

definition cleanupListeners :: "WagmiStrategy \<Rightarrow> store \<Rightarrow> store" where
  "cleanupListeners this st =
     (case unsubscribeAccount this of
        None \<Rightarrow> st
      | Some key \<Rightarrow> unsubscribe key st)"

text \<open>\<^verbatim>\<open>addAddressEvent(listener)\<close>, lines 186 to 203.\<close>

definition addAddressEvent :: "address_listener \<Rightarrow> store \<Rightarrow> event_listener \<times> store" where
  "addAddressEvent listener st =
     (case subscribe (AddressEventCallback listener) st of
        (key, st') \<Rightarrow> (Unsubscriber key, st'))"

text \<open>
  Calling a function of type \<^verbatim>\<open>(e: CustomEvent) => void\<close>: a closure of
  \<^verbatim>\<open>addAddressEvent\<close> ignores its argument and unsubscribes; what a host's function does
  is its own affair, recorded as the call.
\<close>

fun callEventListener :: "event_listener \<Rightarrow> custom_event \<Rightarrow> store \<Rightarrow> store \<times> notice list" where
  "callEventListener (Unsubscriber key) e st =
     (unsubscribe key st, [EventListenerCalled (Unsubscriber key) e])"
| "callEventListener (HostListener h) e st =
     (st, [EventListenerCalled (HostListener h) e])"

text \<open>\<^verbatim>\<open>removeAddressEvent(listener)\<close>, lines 205 to 209.\<close>

definition removeAddressEvent ::
  "event_listener \<Rightarrow> WagmiStrategy \<Rightarrow> store \<Rightarrow> store \<times> notice list" where
  "removeAddressEvent listener this st =
     callEventListener listener
       (CustomEvent (case account this of None \<Rightarrow> '''' | Some a \<Rightarrow> addressString a)) st"

text \<open>
  One emission of the store: every subscribed callback runs once, in the order of
  subscription, on the emitted state.
\<close>

fun deliver :: "wagmi_state \<Rightarrow> callback \<Rightarrow> WagmiStrategy \<Rightarrow> WagmiStrategy \<times> notice list" where
  "deliver state AccountCallback this =
     (case accountChanged state this of (this', es) \<Rightarrow> (this', map External es))"
| "deliver state (AddressEventCallback listener) this =
     (this, addressEventCallback listener state)"

fun emitTo ::
  "wagmi_state \<Rightarrow> (nat \<times> callback) list \<Rightarrow> WagmiStrategy \<Rightarrow> WagmiStrategy \<times> notice list" where
  "emitTo state [] this = (this, [])"
| "emitTo state ((key, cb) # subs) this =
     (case deliver state cb this of
        (this1, ns1) \<Rightarrow>
          (case emitTo state subs this1 of
             (this2, ns2) \<Rightarrow> (this2, ns1 @ ns2)))"

definition emit :: "wagmi_state \<Rightarrow> store \<Rightarrow> WagmiStrategy \<Rightarrow> WagmiStrategy \<times> notice list" where
  "emit state st this = emitTo state (subscriptions st) this"

subsection \<open>Text and bytes\<close>

text \<open>
  \<^verbatim>\<open>encrypt\<close> and \<^verbatim>\<open>decrypt\<close> pass their data through \<^verbatim>\<open>TextDecoder\<close> and \<^verbatim>\<open>TextEncoder\<close>.
  A byte is an \<open>8 word\<close>. A text is a JavaScript string, as the list of its code
  points: a surrogate pair is one code point, and a value from \<open>0xD800\<close> to \<open>0xDFFF\<close>
  stands for a surrogate without its partner. The strings that the source builds from
  literals and hexadecimal digits stay of type \<open>string\<close>.
\<close>

type_synonym js_text = "nat list"

text \<open>
  The UTF-8 decoder of \<^verbatim>\<open>new TextDecoder()\<close>, which replaces what is not UTF-8 by
  \<open>U+FFFD\<close>. Its state is the code point collected so far, the number of continuation
  bytes seen and needed, and the bounds of the next continuation byte, which are \<open>0x80\<close>
  and \<open>0xBF\<close> except right after some lead bytes. A byte that cannot continue a
  sequence ends it with one \<open>U+FFFD\<close> and is read again as the start of the next.
  Bytes are given by their values; \<open>b mod 32\<close> is \<^verbatim>\<open>b & 0x1F\<close> and
  \<open>cp * 64 + b mod 64\<close> is \<^verbatim>\<open>(cp << 6) | (b & 0x3F)\<close>.
\<close>

fun utf8Decode :: "nat \<Rightarrow> nat \<Rightarrow> nat \<Rightarrow> nat \<Rightarrow> nat \<Rightarrow> nat list \<Rightarrow> js_text" where
  "utf8Decode cp seen needed lower upper [] = (if needed \<noteq> 0 then [0xFFFD] else [])"
| "utf8Decode cp seen needed lower upper (b # bs) =
     (if needed = 0 then
        (if b \<le> 0x7F then b # utf8Decode 0 0 0 0x80 0xBF bs
         else if 0xC2 \<le> b \<and> b \<le> 0xDF then utf8Decode (b mod 32) 0 1 0x80 0xBF bs
         else if 0xE0 \<le> b \<and> b \<le> 0xEF then
           utf8Decode (b mod 16) 0 2 (if b = 0xE0 then 0xA0 else 0x80)
             (if b = 0xED then 0x9F else 0xBF) bs
         else if 0xF0 \<le> b \<and> b \<le> 0xF4 then
           utf8Decode (b mod 8) 0 3 (if b = 0xF0 then 0x90 else 0x80)
             (if b = 0xF4 then 0x8F else 0xBF) bs
         else 0xFFFD # utf8Decode 0 0 0 0x80 0xBF bs)
      else if \<not> (lower \<le> b \<and> b \<le> upper) then
        0xFFFD # utf8Decode 0 0 0 0x80 0xBF (b # bs)
      else if seen + 1 \<noteq> needed then
        utf8Decode (cp * 64 + b mod 64) (seen + 1) needed 0x80 0xBF bs
      else (cp * 64 + b mod 64) # utf8Decode 0 0 0 0x80 0xBF bs)"

declare utf8Decode.simps [simp del]

text \<open>
  \<^verbatim>\<open>new TextDecoder().decode(data)\<close>: the decoder above, and a byte order mark at the start
  of the text is dropped (\<^verbatim>\<open>ignoreBOM\<close> is false).
\<close>

definition TextDecoder_decode :: "8 word list \<Rightarrow> js_text" where
  "TextDecoder_decode data =
     (case utf8Decode 0 0 0 0x80 0xBF (map unat data) of
        [] \<Rightarrow> []
      | c # cs \<Rightarrow> if c = 0xFEFF then cs else c # cs)"

text \<open>
  \<^verbatim>\<open>new TextEncoder().encode(s)\<close>: the UTF-8 bytes of each code point, a lone surrogate
  encoded as \<open>U+FFFD\<close>. A code point is below \<open>0x110000\<close>.
\<close>

definition utf8Bytes :: "nat \<Rightarrow> 8 word list" where
  "utf8Bytes c =
     (if c < 0x80 then [of_nat c]
      else if c < 0x800 then [of_nat (0xC0 + c div 64), of_nat (0x80 + c mod 64)]
      else if c < 0x10000 then
        (if 0xD800 \<le> c \<and> c \<le> 0xDFFF then [0xEF, 0xBF, 0xBD]
         else [of_nat (0xE0 + c div 4096), of_nat (0x80 + c div 64 mod 64),
               of_nat (0x80 + c mod 64)])
      else [of_nat (0xF0 + c div 262144), of_nat (0x80 + c div 4096 mod 64),
            of_nat (0x80 + c div 64 mod 64), of_nat (0x80 + c mod 64)])"

definition TextEncoder_encode :: "js_text \<Rightarrow> 8 word list" where
  "TextEncoder_encode s = concat (map utf8Bytes s)"

text \<open>A Unicode scalar value: a code point that is not a surrogate.\<close>

definition scalarValue :: "nat \<Rightarrow> bool" where
  "scalarValue c = (c < 0x110000 \<and> \<not> (0xD800 \<le> c \<and> c \<le> 0xDFFF))"

text \<open>\<^verbatim>\<open>byte.toString(16).padStart(2, "0")\<close>, line 231: two lower-case digits.\<close>

definition hexDigit :: "nat \<Rightarrow> char" where
  "hexDigit n = (if n < 10 then char_of (48 + n) else char_of (87 + n))"

definition byteHex :: "8 word \<Rightarrow> string" where
  "byteHex b = [hexDigit (unat b div 16), hexDigit (unat b mod 16)]"

text \<open>
  The local \<^verbatim>\<open>hexData\<close> of \<^verbatim>\<open>decrypt\<close>, lines 230 to 232: the data is decoded as text,
  encoded again, and each byte written as two digits after \<^verbatim>\<open>0x\<close>.
\<close>

definition hexData :: "8 word list \<Rightarrow> string" where
  "hexData data =
     ''0x'' @ concat (map byteHex (TextEncoder_encode (TextDecoder_decode data)))"

subsection \<open>Encrypting and decrypting\<close>

text \<open>
  The two JSON-RPC methods of the wallet provider that the adapter calls through
  \<^verbatim>\<open>signer.provider.send\<close>: \<^verbatim>\<open>eth_getEncryptionPublicKey\<close> with the account, which may be
  null, and \<^verbatim>\<open>eth_decrypt\<close> with the hexadecimal payload and the address. What
  \<^verbatim>\<open>eth_decrypt\<close> resolves to is returned as the method's \<^verbatim>\<open>Uint8Array\<close>.
\<close>

record provider =
  eth_getEncryptionPublicKey :: "string option \<Rightarrow> thrown + string"
  eth_decrypt :: "string \<Rightarrow> string \<Rightarrow> thrown + 8 word list"

text \<open>
  \<^verbatim>\<open>encrypt(data)\<close>, lines 211 to 223. \<open>encryptJson publicKey stringData\<close> is
  \<^verbatim>\<open>JSON.stringify(encrypt({data: stringData, publicKey, version}))\<close> with the \<^verbatim>\<open>encrypt\<close>
  of \<^verbatim>\<open>@metamask/eth-sig-util\<close>: the JSON text of the encrypted data, or what the library
  throws. Nothing is caught, so any failure rejects the method. The method writes no
  field.
\<close>

definition encrypt ::
  "thrown + ethers_signer \<Rightarrow> provider \<Rightarrow> (string \<Rightarrow> js_text \<Rightarrow> thrown + js_text)
     \<Rightarrow> 8 word list \<Rightarrow> WagmiStrategy \<Rightarrow> thrown + 8 word list" where
  "encrypt signerResult provider encryptJson data this =
     (case signerResult of
        Inl error \<Rightarrow> Inl error
      | Inr s \<Rightarrow>
          (case eth_getEncryptionPublicKey provider (map_option addressString (account this)) of
             Inl error \<Rightarrow> Inl error
           | Inr publicKey \<Rightarrow>
               (let stringData = TextDecoder_decode data in
                case encryptJson publicKey stringData of
                  Inl error \<Rightarrow> Inl error
                | Inr encryptedData \<Rightarrow> Inr (TextEncoder_encode encryptedData))))"

text \<open>\<^verbatim>\<open>decrypt(data)\<close>, lines 224 to 234.\<close>

definition decrypt ::
  "thrown + ethers_signer \<Rightarrow> provider \<Rightarrow> 8 word list \<Rightarrow> WagmiStrategy
     \<Rightarrow> thrown + 8 word list" where
  "decrypt signerResult provider data this =
     (case signerResult of
        Inl error \<Rightarrow> Inl error
      | Inr s \<Rightarrow>
          (case fst (getActiveAddress this) of
             Inl error \<Rightarrow> Inl error
           | Inr address \<Rightarrow> eth_decrypt provider (hexData data) address))"

text \<open>
  The words of the specification: a provider whose two methods are consistent with the
  encryption, for the owner of a key. What \<^verbatim>\<open>eth_decrypt\<close> takes is fixed by the wallet,
  not by the adapter: the text \<^verbatim>\<open>0x\<close> followed by two lower-case hexadecimal digits for
  each byte of the UTF-8 encoding of the JSON text of the encrypted data, and the address
  of the owner.
\<close>

definition hexDigits :: string where
  "hexDigits = ''0123456789abcdef''"

definition wireHex :: "8 word list \<Rightarrow> string" where
  "wireHex bytes =
     ''0x'' @ concat (map (\<lambda>b. [hexDigits ! (unat b div 16), hexDigits ! (unat b mod 16)]) bytes)"

text \<open>
  The provider hands out a key when asked for \<open>owner\<close>, encryption under that key
  succeeds, and \<^verbatim>\<open>eth_decrypt\<close>, given the encrypted data in the wallet's format and
  \<open>address\<close>, resolves to the bytes of the text that was encrypted.
\<close>

definition consistentProvider ::
  "provider \<Rightarrow> (string \<Rightarrow> js_text \<Rightarrow> thrown + js_text) \<Rightarrow> string option \<Rightarrow> string
     \<Rightarrow> bool" where
  "consistentProvider provider encryptJson owner address =
     (\<exists>publicKey.
        eth_getEncryptionPublicKey provider owner = Inr publicKey \<and>
        (\<forall>plain. \<exists>encryptedData.
           encryptJson publicKey plain = Inr encryptedData \<and>
           eth_decrypt provider (wireHex (TextEncoder_encode encryptedData)) address =
             Inr (TextEncoder_encode plain)))"

text \<open>
  What \<^verbatim>\<open>JSON.stringify\<close> returns for an object: a text of scalar values that starts with
  an opening brace. \<open>encryptsToJson\<close> says so of the parameter \<open>encryptJson\<close>.
\<close>

definition jsonObjectText :: "js_text \<Rightarrow> bool" where
  "jsonObjectText s =
     (list_all scalarValue s \<and> (case s of [] \<Rightarrow> False | c # cs \<Rightarrow> c = 0x7B))"

definition encryptsToJson :: "(string \<Rightarrow> js_text \<Rightarrow> thrown + js_text) \<Rightarrow> bool" where
  "encryptsToJson encryptJson =
     (\<forall>publicKey plain encryptedData.
        encryptJson publicKey plain = Inr encryptedData \<longrightarrow> jsonObjectText encryptedData)"

text \<open>
  A provider to test with. Its encryption writes the bytes of the text as hexadecimal
  digits between braces; its \<^verbatim>\<open>eth_decrypt\<close> reads the payload back from the digits it is
  sent, drops the braces, and reads the bytes of the text from the digits in between.
\<close>

definition hexValue :: "char \<Rightarrow> nat" where
  "hexValue c = (if of_char c < (58::nat) then of_char c - 48 else of_char c - 87)"

fun unhex :: "string \<Rightarrow> 8 word list" where
  "unhex (h # l # rest) = of_nat (hexValue h * 16 + hexValue l) # unhex rest"
| "unhex rest = []"

definition mockEncryptJson :: "string \<Rightarrow> js_text \<Rightarrow> thrown + js_text" where
  "mockEncryptJson publicKey plain =
     Inr (0x7B # map of_char (concat (map byteHex (TextEncoder_encode plain))) @ [0x7D])"

definition mockProvider :: provider where
  "mockProvider =
     \<lparr>eth_getEncryptionPublicKey = (\<lambda>account. Inr ''mock-key''),
      eth_decrypt = (\<lambda>payload address.
        Inr (unhex (map (\<lambda>b. char_of (unat b)) (butlast (tl (unhex (drop 2 payload)))))))\<rparr>"

section \<open>Properties\<close>

subsection \<open>Auxiliary facts\<close>

lemma first_conv: "first xs = (case xs of [] \<Rightarrow> None | x # _ \<Rightarrow> Some x)"
  by (cases xs) simp_all

lemma truthy_addressString: "truthy (addressString a)"
  by (cases a) (simp add: truthy_def)

lemma newAccount_firstActiveAccount: "newAccount state = firstActiveAccount state"
  by (simp add: newAccount_def firstActiveAccount_def activeConnection_def truthy_def
      first_conv split: option.splits)

lemma accountChanged_account:
  "account (fst (accountChanged state this)) = firstActiveAccount state"
  by (simp add: accountChanged_def Let_def newAccount_firstActiveAccount)

lemma accountChanged_signer:
  "firstActiveAccount state = None \<Longrightarrow> signer (fst (accountChanged state this)) = None"
  by (simp add: accountChanged_def Let_def newAccount_firstActiveAccount)

lemma runTasks_append: "runTasks (ts @ us) this = runTasks us (runTasks ts this)"
  by (induction ts arbitrary: this) simp_all

lemma runTask_settled_account:
  "\<not> isEmission t \<Longrightarrow> account (fst (runTask t this)) = account this"
proof (cases t)
  case (Emission state)
  assume "\<not> isEmission t"
  with Emission show ?thesis by simp
next
  case (SignerSettled r)
  then show ?thesis by (cases r) simp_all
qed

lemma runTasks_settled_account:
  "list_all (\<lambda>t. \<not> isEmission t) ts \<Longrightarrow> account (runTasks ts this) = account this"
  by (induction ts arbitrary: this) (simp_all add: runTask_settled_account)

lemma emitTo_append:
  "emitTo state (xs @ ys) this =
     (case emitTo state xs this of
        (this1, ns1) \<Rightarrow>
          (case emitTo state ys this1 of (this2, ns2) \<Rightarrow> (this2, ns1 @ ns2)))"
  by (induction xs arbitrary: this) (auto split: prod.splits)

lemma emit_after_setupListeners:
  "account (fst (emit state (snd (setupListeners installer st)) this)) =
     firstActiveAccount state"
proof -
  have last: "account (fst (deliver state AccountCallback t)) = firstActiveAccount state" for t
    using accountChanged_account [of state t] by (simp add: case_prod_beta)
  have "fst (emitTo state (subs @ [(key, AccountCallback)]) this) =
      fst (deliver state AccountCallback (fst (emitTo state subs this)))" for subs key
    by (simp add: emitTo_append case_prod_beta del: deliver.simps)
  then show ?thesis
    by (simp add: emit_def setupListeners_def subscribe_def last del: deliver.simps)
qed

lemma addressEventCallback_conv:
  "addressEventCallback listener state =
     (case firstActiveAccount state of
        None \<Rightarrow> []
      | Some a \<Rightarrow> [AddressListenerCalled listener (addressString a)])"
  by (simp add: addressEventCallback_def firstActiveAccount_def activeConnection_def
      truthy_def truthy_addressString [unfolded truthy_def] first_conv
      split: option.splits list.splits)

lemma filter_fresh_key:
  "list_all (\<lambda>(k, cb). k < (n::nat)) subs \<Longrightarrow> filter (\<lambda>(k, cb). k \<noteq> n) subs = subs"
  by (induction subs) auto

lemma unsubscribe_after_subscribe:
  assumes "storeOk st"
  shows "subscriptions (unsubscribe (fst (subscribe cb st)) (snd (subscribe cb st)))
           = subscriptions st"
  using assms by (simp add: subscribe_def unsubscribe_def storeOk_def filter_fresh_key)

text \<open>
  Fresh keys are an invariant of the store: the empty store has it, and subscribing and
  unsubscribing keep it.
\<close>

lemma storeOk_empty: "storeOk \<lparr>subscriptions = [], nextKey = n\<rparr>"
  by (simp add: storeOk_def)

lemma storeOk_subscribe: "storeOk st \<Longrightarrow> storeOk (snd (subscribe cb st))"
  by (auto simp add: storeOk_def subscribe_def list_all_iff)

lemma storeOk_unsubscribe: "storeOk st \<Longrightarrow> storeOk (unsubscribe key st)"
  by (simp add: storeOk_def unsubscribe_def list_all_iff)

subsection \<open>Connecting\<close>

lemma runTask_signer_cong:
  "signer this = signer other \<Longrightarrow> signer (fst (runTask t this)) = signer (fst (runTask t other))"
proof (cases t)
  case (Emission state)
  assume "signer this = signer other"
  with Emission show ?thesis
    by (simp add: accountChanged_def Let_def)
next
  case (SignerSettled r)
  assume "signer this = signer other"
  with SignerSettled show ?thesis
    by (cases r) simp_all
qed

lemma runTasks_signer_cong:
  "signer this = signer other \<Longrightarrow> signer (runTasks ts this) = signer (runTasks ts other)"
proof (induction ts arbitrary: this other)
  case Nil
  then show ?case by simp
next
  case (Cons t ts)
  from Cons.prems have "signer (fst (runTask t this)) = signer (fst (runTask t other))"
    by (rule runTask_signer_cong)
  then have "signer (runTasks ts (fst (runTask t this))) =
      signer (runTasks ts (fst (runTask t other)))"
    by (rule Cons.IH)
  then show ?case
    by simp
qed

lemma runTasks_account_written:
  "signer (runTasks ts (this\<lparr>account := x\<rparr>)) = signer (runTasks ts this)"
  by (rule runTasks_signer_cong) simp

lemma runTasks_last_emission:
  "list_all (\<lambda>t. \<not> isEmission t) later \<Longrightarrow>
   account (runTasks (earlier @ Emission state # later) this) = firstActiveAccount state"
proof -
  assume "list_all (\<lambda>t. \<not> isEmission t) later"
  then have "account (runTasks later (fst (accountChanged state (runTasks earlier this)))) =
      account (fst (accountChanged state (runTasks earlier this)))"
    by (rule runTasks_settled_account)
  then show ?thesis
    by (simp add: runTasks_append accountChanged_account)
qed

text \<open>
  C1, as the code has it. When the connector's connect routine resolves with at least one
  account, \<^verbatim>\<open>connect()\<close> resolves. The signer derivation is awaited before \<^verbatim>\<open>connect()\<close>
  returns: when it resolves, \<^verbatim>\<open>signer\<close> is the derived signer, hence not null, on return;
  when it rejects, the error is caught and logged as the last thing the method does, the
  method assigns no signer, and \<^verbatim>\<open>signer\<close> is what the callbacks that ran during the call
  left, which is what it was before the call when none ran. \<^verbatim>\<open>account\<close> is the first
  returned address on return when the store emits nothing while the derivation is
  awaited; an emission delivered during that await overwrites it with the first account
  of its active connection, or with null.
\<close>

theorem connect_resolved:
  assumes "connectResult = Inr (a # as)"
  shows
    "fst (connect connectResult duringConnect signerResult duringSigner this) = Inr () \<and>
     (list_all (\<lambda>t. \<not> isEmission t) duringSigner \<longrightarrow>
        account (fst (snd (connect connectResult duringConnect signerResult duringSigner this))) =
          Some a) \<and>
     (list_all (\<lambda>t. \<not> isEmission t) later \<longrightarrow>
        account (fst (snd (connect connectResult duringConnect signerResult
          (earlier @ Emission state # later) this))) = firstActiveAccount state) \<and>
     (case signerResult of
        Inr s \<Rightarrow>
          signer (fst (snd (connect connectResult duringConnect signerResult duringSigner this))) =
            Some s \<and>
          snd (snd (connect connectResult duringConnect signerResult duringSigner this)) =
            WagmiConnect # tasksEffects duringConnect this @
            GetEthersSigner #
            tasksEffects duringSigner ((runTasks duringConnect this)\<lparr>account := Some a\<rparr>)
      | Inl error \<Rightarrow>
          signer (fst (snd (connect connectResult duringConnect signerResult duringSigner this))) =
            signer (runTasks (duringConnect @ duringSigner) this) \<and>
          snd (snd (connect connectResult duringConnect signerResult duringSigner this)) =
            WagmiConnect # tasksEffects duringConnect this @
            GetEthersSigner #
            tasksEffects duringSigner ((runTasks duringConnect this)\<lparr>account := Some a\<rparr>) @
            [ConsoleError ''[Arweave Wallet Kit] Error connecting to wallet:'' error]) \<and>
     (duringConnect = [] \<and> duringSigner = [] \<and> signerResult = Inl rejection \<longrightarrow>
        signer (fst (snd (connect connectResult duringConnect signerResult duringSigner this))) =
          signer this)"
proof (intro conjI impI)
  show "fst (connect connectResult duringConnect signerResult duringSigner this) = Inr ()"
    using assms by (simp add: connect_def Let_def split: sum.splits)
next
  assume "list_all (\<lambda>t. \<not> isEmission t) duringSigner"
  then have "account (runTasks duringSigner ((runTasks duringConnect this)\<lparr>account := Some a\<rparr>)) =
      Some a"
    by (simp add: runTasks_settled_account)
  then show "account (fst (snd (connect connectResult duringConnect signerResult duringSigner
      this))) = Some a"
    using assms by (simp add: connect_def Let_def split: sum.splits)
next
  assume "list_all (\<lambda>t. \<not> isEmission t) later"
  then have "account (runTasks (earlier @ Emission state # later)
      ((runTasks duringConnect this)\<lparr>account := Some a\<rparr>)) = firstActiveAccount state"
    by (rule runTasks_last_emission)
  then show "account (fst (snd (connect connectResult duringConnect signerResult
      (earlier @ Emission state # later) this))) = firstActiveAccount state"
    using assms by (simp add: connect_def Let_def split: sum.splits)
next
  have "signer (runTasks duringSigner ((runTasks duringConnect this)\<lparr>account := Some a\<rparr>)) =
      signer (runTasks (duringConnect @ duringSigner) this)"
    by (simp add: runTasks_append runTasks_account_written)
  then show "case signerResult of
      Inr s \<Rightarrow>
        signer (fst (snd (connect connectResult duringConnect signerResult duringSigner this))) =
          Some s \<and>
        snd (snd (connect connectResult duringConnect signerResult duringSigner this)) =
          WagmiConnect # tasksEffects duringConnect this @
          GetEthersSigner #
          tasksEffects duringSigner ((runTasks duringConnect this)\<lparr>account := Some a\<rparr>)
    | Inl error \<Rightarrow>
        signer (fst (snd (connect connectResult duringConnect signerResult duringSigner this))) =
          signer (runTasks (duringConnect @ duringSigner) this) \<and>
        snd (snd (connect connectResult duringConnect signerResult duringSigner this)) =
          WagmiConnect # tasksEffects duringConnect this @
          GetEthersSigner #
          tasksEffects duringSigner ((runTasks duringConnect this)\<lparr>account := Some a\<rparr>) @
          [ConsoleError ''[Arweave Wallet Kit] Error connecting to wallet:'' error]"
    using assms by (simp add: connect_def Let_def split: sum.splits)
next
  assume "duringConnect = [] \<and> duringSigner = [] \<and> signerResult = Inl rejection"
  then show "signer (fst (snd (connect connectResult duringConnect signerResult duringSigner
      this))) = signer this"
    using assms by (simp add: connect_def Let_def)
qed

theorem connect_resolved_witness:
  "account (fst (snd (connect (Inr [Address ''71C7'', Address ''0b5e''])
      [Emission \<lparr>current = Some ''c1'',
                 connections = [''c1'' \<mapsto> \<lparr>accounts = [Address ''71C7'', Address ''0b5e'']\<rparr>]\<rparr>]
      (Inr (EthersSigner 2)) [SignerSettled (Inr (EthersSigner 3))]
      \<lparr>signer = None, account = None, unsubscribeAccount = Some 0\<rparr>))) = Some (Address ''71C7'') \<and>
   signer (fst (snd (connect (Inr [Address ''71C7'', Address ''0b5e''])
      [Emission \<lparr>current = Some ''c1'',
                 connections = [''c1'' \<mapsto> \<lparr>accounts = [Address ''71C7'', Address ''0b5e'']\<rparr>]\<rparr>]
      (Inr (EthersSigner 2)) [SignerSettled (Inr (EthersSigner 3))]
      \<lparr>signer = None, account = None, unsubscribeAccount = Some 0\<rparr>))) = Some (EthersSigner 2)"
  using connect_resolved [where connectResult = "Inr [Address ''71C7'', Address ''0b5e'']"
      and a = "Address ''71C7''" and as = "[Address ''0b5e'']"
      and duringConnect = "[Emission \<lparr>current = Some ''c1'',
          connections = [''c1'' \<mapsto> \<lparr>accounts = [Address ''71C7'', Address ''0b5e'']\<rparr>]\<rparr>]"
      and signerResult = "Inr (EthersSigner 2)"
      and duringSigner = "[SignerSettled (Inr (EthersSigner 3))]"
      and this = "\<lparr>signer = None, account = None, unsubscribeAccount = Some 0\<rparr>"]
  by simp

text \<open>
  C1 as stated fails: the connector resolves with one account, the signer derivation
  rejects, and \<^verbatim>\<open>connect()\<close> resolves with \<^verbatim>\<open>account\<close> set and \<^verbatim>\<open>signer\<close> still null.
  In the first run nothing else happens during the call; in the second the store emits
  the new connection while the connector is awaited, and the derivation that the
  listener starts rejects as well.
\<close>

theorem connect_signer_counterexample:
  "fst (connect (Inr [Address ''71C7'']) [] (Inl (Error ''connector not connected'')) []
      \<lparr>signer = None, account = None, unsubscribeAccount = None\<rparr>) = Inr () \<and>
   account (fst (snd (connect (Inr [Address ''71C7'']) []
      (Inl (Error ''connector not connected'')) []
      \<lparr>signer = None, account = None, unsubscribeAccount = None\<rparr>))) = Some (Address ''71C7'') \<and>
   signer (fst (snd (connect (Inr [Address ''71C7'']) []
      (Inl (Error ''connector not connected'')) []
      \<lparr>signer = None, account = None, unsubscribeAccount = None\<rparr>))) = None \<and>
   account (fst (snd (connect (Inr [Address ''71C7''])
      [Emission \<lparr>current = Some ''c1'',
                 connections = [''c1'' \<mapsto> \<lparr>accounts = [Address ''71C7'']\<rparr>]\<rparr>]
      (Inl (Error ''connector not connected''))
      [SignerSettled (Inl (Error ''connector not connected''))]
      \<lparr>signer = None, account = None, unsubscribeAccount = Some 0\<rparr>))) = Some (Address ''71C7'') \<and>
   signer (fst (snd (connect (Inr [Address ''71C7''])
      [Emission \<lparr>current = Some ''c1'',
                 connections = [''c1'' \<mapsto> \<lparr>accounts = [Address ''71C7'']\<rparr>]\<rparr>]
      (Inl (Error ''connector not connected''))
      [SignerSettled (Inl (Error ''connector not connected''))]
      \<lparr>signer = None, account = None, unsubscribeAccount = Some 0\<rparr>))) = None"
  by (simp add: connect_def Let_def accountChanged_def newAccount_def truthy_def)

text \<open>
  C4, as the code has it. When the connector's connect routine throws, \<^verbatim>\<open>connect()\<close>
  resolves, the error is logged as the last thing the method does, the signer derivation
  is not started, and the method itself writes no field: the fields on return are what
  the callbacks that ran while the connector's routine was awaited left. \<^verbatim>\<open>account\<close> is
  what it was before the call when no emission was delivered meanwhile, and every field
  is what it was when nothing ran meanwhile.
\<close>

theorem connect_rejected:
  assumes "connectResult = Inl error"
  shows
    "connect connectResult duringConnect signerResult duringSigner this =
       (Inr (), runTasks duringConnect this,
        WagmiConnect # tasksEffects duringConnect this @
        [ConsoleError ''[Arweave Wallet Kit] Error connecting to wallet:'' error]) \<and>
     (list_all (\<lambda>t. \<not> isEmission t) duringConnect \<longrightarrow>
        account (fst (snd (connect connectResult duringConnect signerResult duringSigner this))) =
          account this) \<and>
     (duringConnect = [] \<longrightarrow>
        connect connectResult duringConnect signerResult duringSigner this =
          (Inr (), this,
           [WagmiConnect,
            ConsoleError ''[Arweave Wallet Kit] Error connecting to wallet:'' error]))"
  using assms by (simp add: connect_def Let_def runTasks_settled_account)

theorem connect_rejected_witness:
  "connect (Inl (Error ''User rejected the request.'')) [] (Inr (EthersSigner 2)) []
      \<lparr>signer = Some (EthersSigner 1), account = Some (Address ''71C7''),
       unsubscribeAccount = Some 0\<rparr> =
     (Inr (),
      \<lparr>signer = Some (EthersSigner 1), account = Some (Address ''71C7''),
       unsubscribeAccount = Some 0\<rparr>,
      [WagmiConnect,
       ConsoleError ''[Arweave Wallet Kit] Error connecting to wallet:''
         (Error ''User rejected the request.'')]) \<and>
   account (fst (snd (connect (Inl (Error ''User rejected the request.''))
      [SignerSettled (Inr (EthersSigner 3))] (Inr (EthersSigner 2)) []
      \<lparr>signer = Some (EthersSigner 1), account = Some (Address ''71C7''),
       unsubscribeAccount = Some 0\<rparr>))) = Some (Address ''71C7'')"
  using connect_rejected [where connectResult = "Inl (Error ''User rejected the request.'')"
      and error = "Error ''User rejected the request.''" and duringConnect = "[]"
      and signerResult = "Inr (EthersSigner 2)" and duringSigner = "[]"
      and this = "\<lparr>signer = Some (EthersSigner 1), account = Some (Address ''71C7''),
                    unsubscribeAccount = Some 0\<rparr>"]
    connect_rejected [where connectResult = "Inl (Error ''User rejected the request.'')"
      and error = "Error ''User rejected the request.''"
      and duringConnect = "[SignerSettled (Inr (EthersSigner 3))]"
      and signerResult = "Inr (EthersSigner 2)" and duringSigner = "[]"
      and this = "\<lparr>signer = Some (EthersSigner 1), account = Some (Address ''71C7''),
                    unsubscribeAccount = Some 0\<rparr>"]
  by simp

text \<open>
  C4 as stated fails: the store emits while the connector's routine is awaited, the
  listener of \<^verbatim>\<open>setupListeners\<close> runs, and \<^verbatim>\<open>connect()\<close> returns from the failed attempt
  with other fields than it was called with. In the first run the emission carries a
  connection the adapter had not seen, and \<^verbatim>\<open>account\<close> is set; in the second it carries
  none, and \<^verbatim>\<open>signer\<close> is cleared.
\<close>

theorem connect_rejected_counterexample:
  "account (fst (snd (connect (Inl (Error ''User rejected the request.''))
      [Emission \<lparr>current = Some ''c1'',
                 connections = [''c1'' \<mapsto> \<lparr>accounts = [Address ''71C7'']\<rparr>]\<rparr>]
      (Inr (EthersSigner 2)) []
      \<lparr>signer = None, account = None, unsubscribeAccount = Some 0\<rparr>))) = Some (Address ''71C7'') \<and>
   signer (fst (snd (connect (Inl (Error ''User rejected the request.''))
      [Emission \<lparr>current = None, connections = Map.empty\<rparr>]
      (Inr (EthersSigner 2)) []
      \<lparr>signer = Some (EthersSigner 7), account = None, unsubscribeAccount = Some 0\<rparr>))) = None"
  by (simp add: connect_def Let_def accountChanged_def newAccount_def truthy_def)

subsection \<open>Disconnecting\<close>




subsection \<open>Signing without a signer\<close>

text \<open>
  C3. When \<^verbatim>\<open>signer\<close> is null, \<^verbatim>\<open>signMessage\<close> and \<^verbatim>\<open>signTransaction\<close> reject with the
  error "Signer not available" and make no external call, whatever the signer would
  have answered.
\<close>

theorem sign_without_signer:
  assumes "signer this = None"
  shows "signMessage signResult message this = (Inl (Error ''Signer not available''), []) \<and>
         signTransaction sendResult transaction this =
           (Inl (Error ''Signer not available''), [])"
  using assms by (simp add: signMessage_def signTransaction_def)

theorem sign_without_signer_witness:
  "signMessage (Inr ''0x5f3a'') ''hello''
      \<lparr>signer = None, account = Some (Address ''71C7''), unsubscribeAccount = None\<rparr> =
     (Inl (Error ''Signer not available''), []) \<and>
   signTransaction (Inr ''0x9e01'') (TransactionRequest 0)
      \<lparr>signer = None, account = Some (Address ''71C7''), unsubscribeAccount = None\<rparr> =
     (Inl (Error ''Signer not available''), [])"
  using sign_without_signer [where signResult = "Inr ''0x5f3a''" and message = "''hello''"
      and sendResult = "Inr ''0x9e01''" and transaction = "TransactionRequest 0"
      and this = "\<lparr>signer = None, account = Some (Address ''71C7''),
                    unsubscribeAccount = None\<rparr>"]
  by simp

subsection \<open>Unsupported operations\<close>

text \<open>
  C5. In every state of the adapter, \<^verbatim>\<open>dispatch\<close>, \<^verbatim>\<open>addToken\<close>, \<^verbatim>\<open>sign\<close> and
  \<^verbatim>\<open>getWalletNames\<close> reject with an error that says the method is not available on
  ethereum wallets, and do nothing else: no external call, no write to a field.
\<close>

theorem unsupported_operations:
  "(\<exists>e. dispatch transaction this = (Inl e, []) \<and> notAvailable e) \<and>
   (\<exists>e. addToken addr this = (Inl e, []) \<and> notAvailable e) \<and>
   (\<exists>e. sign transaction this = (Inl e, []) \<and> notAvailable e) \<and>
   (\<exists>e. getWalletNames this = (Inl e, []) \<and> notAvailable e)"
  by (simp add: dispatch_def addToken_def sign_def getWalletNames_def notAvailable_def)

subsection \<open>Identity queries when not connected\<close>

text \<open>
  C10. When \<^verbatim>\<open>account\<close> is null, \<^verbatim>\<open>getActiveAddress()\<close> resolves to the empty string;
  when the connector reports no addresses, \<^verbatim>\<open>getAllAddresses()\<close> resolves to the empty
  array; and neither of the two ever rejects.
\<close>

theorem identity_queries_unauthenticated:
  assumes "account this = None"
  shows "getActiveAddress this = (Inr [], []) \<and>
         getAllAddresses None this = (Inr [], [WagmiGetAccount]) \<and>
         getAllAddresses (Some []) this = (Inr [], [WagmiGetAccount]) \<and>
         (\<exists>v. fst (getActiveAddress this) = Inr v) \<and>
         (\<exists>vs. fst (getAllAddresses addresses this) = Inr vs)"
  using assms by (simp add: getActiveAddress_def getAllAddresses_def)

theorem identity_queries_unauthenticated_witness:
  "getActiveAddress \<lparr>signer = None, account = None, unsubscribeAccount = Some 0\<rparr> =
     (Inr [], []) \<and>
   getAllAddresses None \<lparr>signer = None, account = None, unsubscribeAccount = Some 0\<rparr> =
     (Inr [], [WagmiGetAccount])"
  using identity_queries_unauthenticated
    [where this = "\<lparr>signer = None, account = None, unsubscribeAccount = Some 0\<rparr>"]
  by simp

subsection \<open>The account listener\<close>

text \<open>
  C6. Whatever ran before, once the listener that \<^verbatim>\<open>setupListeners\<close> installs has
  processed an emission, \<^verbatim>\<open>account\<close> is the first account of the active connection of
  that emission, or null when the emission has none, and it stays so while signer
  derivations settle, until the next emission. When the new account is null, the callback
  itself sets \<^verbatim>\<open>signer\<close> to null and starts no derivation. The same holds of an
  emission delivered through the store once \<^verbatim>\<open>setupListeners\<close> has subscribed.
\<close>

theorem account_tracks_latest_emission:
  "(list_all (\<lambda>t. \<not> isEmission t) later \<longrightarrow>
      account (runTasks (earlier @ Emission state # later) this) = firstActiveAccount state) \<and>
   (firstActiveAccount state = None \<longrightarrow>
      signer (runTasks (earlier @ [Emission state]) this) = None \<and>
      snd (runTask (Emission state) (runTasks earlier this)) = []) \<and>
   account (fst (emit state (snd (setupListeners installer st)) this)) =
     firstActiveAccount state"
proof (intro conjI impI)
  show "account (fst (emit state (snd (setupListeners installer st)) this)) =
      firstActiveAccount state"
    by (rule emit_after_setupListeners)
next
  assume "list_all (\<lambda>t. \<not> isEmission t) later"
  then have "account (runTasks later (fst (accountChanged state (runTasks earlier this)))) =
      account (fst (accountChanged state (runTasks earlier this)))"
    by (rule runTasks_settled_account)
  then show "account (runTasks (earlier @ Emission state # later) this) =
      firstActiveAccount state"
    by (simp add: runTasks_append accountChanged_account)
next
  assume none: "firstActiveAccount state = None"
  then show "signer (runTasks (earlier @ [Emission state]) this) = None"
    by (simp add: runTasks_append accountChanged_signer)
  from none show "snd (runTask (Emission state) (runTasks earlier this)) = []"
    by (simp add: accountChanged_def Let_def newAccount_firstActiveAccount)
qed

theorem account_tracks_latest_emission_witness:
  "account (runTasks
      ([Emission \<lparr>current = None, connections = Map.empty\<rparr>,
        SignerSettled (Inr (EthersSigner 1))] @
       Emission \<lparr>current = Some ''c1'',
                 connections = [''c1'' \<mapsto> \<lparr>accounts = [Address ''71C7'', Address ''0b5e'']\<rparr>]\<rparr> #
       [SignerSettled (Inl (Error ''connector not connected'')),
        SignerSettled (Inr (EthersSigner 2))])
      \<lparr>signer = None, account = None, unsubscribeAccount = Some 0\<rparr>) = Some (Address ''71C7'') \<and>
   signer (runTasks
      ([Emission \<lparr>current = Some ''c1'',
                  connections = [''c1'' \<mapsto> \<lparr>accounts = [Address ''71C7'']\<rparr>]\<rparr>,
        SignerSettled (Inr (EthersSigner 1))] @
       [Emission \<lparr>current = None,
                  connections = [''c1'' \<mapsto> \<lparr>accounts = [Address ''71C7'']\<rparr>]\<rparr>])
      \<lparr>signer = None, account = None, unsubscribeAccount = Some 0\<rparr>) = None"
proof -
  have eq: "firstActiveAccount
      \<lparr>current = Some ''c1'',
       connections = [''c1'' \<mapsto> \<lparr>accounts = [Address ''71C7'', Address ''0b5e'']\<rparr>]\<rparr> =
      Some (Address ''71C7'')"
    by (simp add: firstActiveAccount_def activeConnection_def)
  have none: "firstActiveAccount
      \<lparr>current = None, connections = [''c1'' \<mapsto> \<lparr>accounts = [Address ''71C7'']\<rparr>]\<rparr> = None"
    by (simp add: firstActiveAccount_def activeConnection_def)
  have later: "list_all (\<lambda>t. \<not> isEmission t)
      [SignerSettled (Inl (Error ''connector not connected'')),
       SignerSettled (Inr (EthersSigner 2))]"
    by simp
  show ?thesis
    using account_tracks_latest_emission
        [where later = "[SignerSettled (Inl (Error ''connector not connected'')),
                         SignerSettled (Inr (EthersSigner 2))]"
          and earlier = "[Emission \<lparr>current = None, connections = Map.empty\<rparr>,
                          SignerSettled (Inr (EthersSigner 1))]"
          and state = "\<lparr>current = Some ''c1'',
                        connections =
                          [''c1'' \<mapsto> \<lparr>accounts = [Address ''71C7'', Address ''0b5e'']\<rparr>]\<rparr>"
          and this = "\<lparr>signer = None, account = None, unsubscribeAccount = Some 0\<rparr>"]
      account_tracks_latest_emission
        [where later = "[]"
          and earlier = "[Emission \<lparr>current = Some ''c1'',
                                    connections = [''c1'' \<mapsto> \<lparr>accounts = [Address ''71C7'']\<rparr>]\<rparr>,
                          SignerSettled (Inr (EthersSigner 1))]"
          and state = "\<lparr>current = None,
                        connections = [''c1'' \<mapsto> \<lparr>accounts = [Address ''71C7'']\<rparr>]\<rparr>"
          and this = "\<lparr>signer = None, account = None, unsubscribeAccount = Some 0\<rparr>"]
      eq none later
    by simp
qed

subsection \<open>Address events\<close>

text \<open>
  C8. After \<^verbatim>\<open>addAddressEvent(listener)\<close>, one emission of the store does what it did
  before and then, for the new subscription, calls \<^verbatim>\<open>listener\<close> once with the first account
  of the active connection when the emission has one, and does not call it when the
  emission has no active connection or no first account. The closure that
  \<^verbatim>\<open>addAddressEvent\<close> returns removes that subscription: after it is called, the store has
  the subscriptions it had before and an emission does what it did before.
\<close>

theorem addAddressEvent_subscription:
  "(firstActiveAccount state = Some a \<longrightarrow>
      snd (emit state (snd (addAddressEvent listener st)) this) =
        snd (emit state st this) @ [AddressListenerCalled listener (addressString a)]) \<and>
   (firstActiveAccount state = None \<longrightarrow>
      snd (emit state (snd (addAddressEvent listener st)) this) = snd (emit state st this)) \<and>
   (storeOk st \<longrightarrow>
      subscriptions (fst (callEventListener (fst (addAddressEvent listener st)) e
         (snd (addAddressEvent listener st)))) = subscriptions st \<and>
      emit state (fst (callEventListener (fst (addAddressEvent listener st)) e
         (snd (addAddressEvent listener st)))) this = emit state st this)"
proof -
  have added: "snd (emit state (snd (addAddressEvent listener st)) this) =
      snd (emit state st this) @ addressEventCallback listener state"
    by (simp add: emit_def addAddressEvent_def subscribe_def emitTo_append
        split: prod.splits)
  have detached: "subscriptions (fst (callEventListener (fst (addAddressEvent listener st)) e
      (snd (addAddressEvent listener st)))) = subscriptions st" if "storeOk st"
    using unsubscribe_after_subscribe [OF that, of "AddressEventCallback listener"]
    by (simp add: addAddressEvent_def case_prod_beta)
  show ?thesis
    using added detached by (simp add: addressEventCallback_conv emit_def)
qed

theorem addAddressEvent_subscription_witness:
  "snd (emit \<lparr>current = Some ''c1'',
              connections = [''c1'' \<mapsto> \<lparr>accounts = [Address ''71C7'']\<rparr>]\<rparr>
         (snd (addAddressEvent (AddressListener 5) \<lparr>subscriptions = [], nextKey = 0\<rparr>))
         \<lparr>signer = None, account = None, unsubscribeAccount = None\<rparr>) =
     [AddressListenerCalled (AddressListener 5) ''0x71C7''] \<and>
   snd (emit \<lparr>current = None, connections = Map.empty\<rparr>
         (snd (addAddressEvent (AddressListener 5) \<lparr>subscriptions = [], nextKey = 0\<rparr>))
         \<lparr>signer = None, account = None, unsubscribeAccount = None\<rparr>) = [] \<and>
   subscriptions (fst (callEventListener
       (fst (addAddressEvent (AddressListener 5) \<lparr>subscriptions = [], nextKey = 0\<rparr>))
       (CustomEvent ''0x71C7'')
       (snd (addAddressEvent (AddressListener 5) \<lparr>subscriptions = [], nextKey = 0\<rparr>)))) = []"
proof -
  have some: "firstActiveAccount
      \<lparr>current = Some ''c1'', connections = [''c1'' \<mapsto> \<lparr>accounts = [Address ''71C7'']\<rparr>]\<rparr> =
      Some (Address ''71C7'')"
    by (simp add: firstActiveAccount_def activeConnection_def)
  have none: "firstActiveAccount \<lparr>current = None, connections = Map.empty\<rparr> = None"
    by (simp add: firstActiveAccount_def activeConnection_def)
  have ok: "storeOk \<lparr>subscriptions = [], nextKey = 0\<rparr>"
    by (simp add: storeOk_def)
  have before: "snd (emit s \<lparr>subscriptions = [], nextKey = 0\<rparr> t) = []" for s t
    by (simp add: emit_def)
  show ?thesis
    using addAddressEvent_subscription
        [where state = "\<lparr>current = Some ''c1'',
                          connections = [''c1'' \<mapsto> \<lparr>accounts = [Address ''71C7'']\<rparr>]\<rparr>"
          and a = "Address ''71C7''" and listener = "AddressListener 5"
          and st = "\<lparr>subscriptions = [], nextKey = 0\<rparr>"
          and this = "\<lparr>signer = None, account = None, unsubscribeAccount = None\<rparr>"
          and e = "CustomEvent ''0x71C7''"]
      addAddressEvent_subscription
        [where state = "\<lparr>current = None, connections = Map.empty\<rparr>"
          and listener = "AddressListener 5"
          and st = "\<lparr>subscriptions = [], nextKey = 0\<rparr>"
          and this = "\<lparr>signer = None, account = None, unsubscribeAccount = None\<rparr>"]
      some none ok before
    by simp
qed

text \<open>
  C9, as the code has it. \<^verbatim>\<open>removeAddressEvent(listener)\<close> calls \<^verbatim>\<open>listener\<close> once, at once,
  with a \<^verbatim>\<open>CustomEvent\<close> made from the current account, or from the empty string when
  \<^verbatim>\<open>account\<close> is null, and removes no subscription itself. What happens to the
  subscriptions is what the called function does: a host's function leaves them as they
  are, and a closure returned by \<^verbatim>\<open>addAddressEvent\<close> removes its own subscription, so
  that passing it to \<^verbatim>\<open>removeAddressEvent\<close> undoes the \<^verbatim>\<open>addAddressEvent\<close>.
\<close>

theorem removeAddressEvent_calls_listener:
  "snd (removeAddressEvent listener this st) =
     [EventListenerCalled listener
        (CustomEvent (case account this of None \<Rightarrow> [] | Some a \<Rightarrow> addressString a))] \<and>
   fst (removeAddressEvent (HostListener h) this st) = st \<and>
   fst (removeAddressEvent (Unsubscriber key) this st) = unsubscribe key st \<and>
   (storeOk st \<longrightarrow>
      subscriptions (fst (removeAddressEvent (fst (addAddressEvent added st)) this
         (snd (addAddressEvent added st)))) = subscriptions st)"
proof -
  have call: "snd (removeAddressEvent listener this st) =
     [EventListenerCalled listener
        (CustomEvent (case account this of None \<Rightarrow> [] | Some a \<Rightarrow> addressString a))]"
    by (cases listener) (simp_all add: removeAddressEvent_def)
  have undo: "subscriptions (fst (removeAddressEvent (fst (addAddressEvent added st)) this
      (snd (addAddressEvent added st)))) = subscriptions st" if "storeOk st"
    using unsubscribe_after_subscribe [OF that, of "AddressEventCallback added"]
    by (simp add: removeAddressEvent_def addAddressEvent_def case_prod_beta)
  show ?thesis
    using call undo by (simp add: removeAddressEvent_def)
qed

theorem removeAddressEvent_calls_listener_witness:
  "subscriptions (fst (removeAddressEvent
      (fst (addAddressEvent (AddressListener 5) \<lparr>subscriptions = [(0, AccountCallback)], nextKey = 1\<rparr>))
      \<lparr>signer = None, account = None, unsubscribeAccount = Some 0\<rparr>
      (snd (addAddressEvent (AddressListener 5)
         \<lparr>subscriptions = [(0, AccountCallback)], nextKey = 1\<rparr>)))) = [(0, AccountCallback)] \<and>
   snd (removeAddressEvent (HostListener 3)
      \<lparr>signer = None, account = None, unsubscribeAccount = Some 0\<rparr>
      \<lparr>subscriptions = [(0, AccountCallback)], nextKey = 1\<rparr>) =
     [EventListenerCalled (HostListener 3) (CustomEvent [])]"
proof -
  have ok: "storeOk \<lparr>subscriptions = [(0, AccountCallback)], nextKey = 1\<rparr>"
    by (simp add: storeOk_def)
  show ?thesis
    using removeAddressEvent_calls_listener
        [where st = "\<lparr>subscriptions = [(0, AccountCallback)], nextKey = 1\<rparr>"
          and this = "\<lparr>signer = None, account = None, unsubscribeAccount = Some 0\<rparr>"
          and added = "AddressListener 5" and listener = "HostListener 3"]
      ok
    by simp
qed

text \<open>
  C9 as stated fails: the function passed to \<^verbatim>\<open>removeAddressEvent\<close> is the closure that
  \<^verbatim>\<open>addAddressEvent\<close> returned, and the call removes that subscription from the store.
\<close>

theorem removeAddressEvent_detaches_counterexample:
  "subscriptions (snd (addAddressEvent (AddressListener 5)
      \<lparr>subscriptions = [(0, AccountCallback)], nextKey = 1\<rparr>)) =
     [(0, AccountCallback), (1, AddressEventCallback (AddressListener 5))] \<and>
   subscriptions (fst (removeAddressEvent
      (fst (addAddressEvent (AddressListener 5) \<lparr>subscriptions = [(0, AccountCallback)], nextKey = 1\<rparr>))
      \<lparr>signer = None, account = Some (Address ''71C7''), unsubscribeAccount = Some 0\<rparr>
      (snd (addAddressEvent (AddressListener 5)
         \<lparr>subscriptions = [(0, AccountCallback)], nextKey = 1\<rparr>)))) =
     [(0, AccountCallback)]"
  by (simp add: removeAddressEvent_def addAddressEvent_def subscribe_def unsubscribe_def)

subsection \<open>Decoding what was encoded\<close>

lemma utf8Decode_Nil: "utf8Decode 0 0 0 lower upper [] = []"
  by (simp add: utf8Decode.simps)

lemma start1:
  "b \<le> 0x7F \<Longrightarrow>
   utf8Decode cp seen 0 lower upper (b # bs) = b # utf8Decode 0 0 0 0x80 0xBF bs"
  by (subst utf8Decode.simps) simp

lemma start2:
  "0xC2 \<le> b \<Longrightarrow> b \<le> 0xDF \<Longrightarrow>
   utf8Decode cp seen 0 lower upper (b # bs) = utf8Decode (b mod 32) 0 1 0x80 0xBF bs"
  by (subst utf8Decode.simps) simp

lemma start3:
  "0xE0 \<le> b \<Longrightarrow> b \<le> 0xEF \<Longrightarrow>
   utf8Decode cp seen 0 lower upper (b # bs) =
     utf8Decode (b mod 16) 0 2 (if b = 0xE0 then 0xA0 else 0x80)
       (if b = 0xED then 0x9F else 0xBF) bs"
  by (subst utf8Decode.simps) simp

lemma start4:
  "0xF0 \<le> b \<Longrightarrow> b \<le> 0xF4 \<Longrightarrow>
   utf8Decode cp seen 0 lower upper (b # bs) =
     utf8Decode (b mod 8) 0 3 (if b = 0xF0 then 0x90 else 0x80)
       (if b = 0xF4 then 0x8F else 0xBF) bs"
  by (subst utf8Decode.simps) simp

lemma start_invalid:
  "0xF4 < b \<Longrightarrow>
   utf8Decode cp seen 0 lower upper (b # bs) = 0xFFFD # utf8Decode 0 0 0 0x80 0xBF bs"
  by (subst utf8Decode.simps) simp

lemma last1:
  "lower \<le> b \<Longrightarrow> b \<le> upper \<Longrightarrow>
   utf8Decode cp 0 1 lower upper (b # bs) =
     (cp * 64 + b mod 64) # utf8Decode 0 0 0 0x80 0xBF bs"
  by (subst utf8Decode.simps) simp

lemma last2:
  "lower \<le> b \<Longrightarrow> b \<le> upper \<Longrightarrow>
   utf8Decode cp 1 2 lower upper (b # bs) =
     (cp * 64 + b mod 64) # utf8Decode 0 0 0 0x80 0xBF bs"
  by (subst utf8Decode.simps) simp

lemma last3:
  "lower \<le> b \<Longrightarrow> b \<le> upper \<Longrightarrow>
   utf8Decode cp 2 3 lower upper (b # bs) =
     (cp * 64 + b mod 64) # utf8Decode 0 0 0 0x80 0xBF bs"
  by (subst utf8Decode.simps) simp

lemma more2:
  "lower \<le> b \<Longrightarrow> b \<le> upper \<Longrightarrow>
   utf8Decode cp 0 2 lower upper (b # bs) =
     utf8Decode (cp * 64 + b mod 64) 1 2 0x80 0xBF bs"
  by (subst utf8Decode.simps) simp

lemma more3a:
  "lower \<le> b \<Longrightarrow> b \<le> upper \<Longrightarrow>
   utf8Decode cp 0 3 lower upper (b # bs) =
     utf8Decode (cp * 64 + b mod 64) 1 3 0x80 0xBF bs"
  by (subst utf8Decode.simps) simp

lemma more3b:
  "lower \<le> b \<Longrightarrow> b \<le> upper \<Longrightarrow>
   utf8Decode cp 1 3 lower upper (b # bs) =
     utf8Decode (cp * 64 + b mod 64) 2 3 0x80 0xBF bs"
  by (subst utf8Decode.simps) (simp add: numeral_2_eq_2)

lemma unat_byte: "n < 256 \<Longrightarrow> unat (of_nat n :: 8 word) = n"
  by (simp add: unat_of_nat)

lemma unat_192: "n < 64 \<Longrightarrow> unat (192 + of_nat n :: 8 word) = 192 + n"
  using unat_byte [of "192 + n"] by simp

lemma unat_128: "n < 64 \<Longrightarrow> unat (128 + of_nat n :: 8 word) = 128 + n"
  using unat_byte [of "128 + n"] by simp

lemma unat_224: "n < 16 \<Longrightarrow> unat (224 + of_nat n :: 8 word) = 224 + n"
  using unat_byte [of "224 + n"] by simp

lemma unat_240: "n < 16 \<Longrightarrow> unat (240 + of_nat n :: 8 word) = 240 + n"
  using unat_byte [of "240 + n"] by simp

lemma off32: "q < 32 \<Longrightarrow> (192 + q) mod 32 = (q::nat)"
proof -
  assume q: "q < 32"
  have "(192 + q) mod 32 = (6 * 32 + q) mod 32" by simp
  also have "\<dots> = q mod 32" by (simp only: mod_mult_self3)
  finally show ?thesis using q by simp
qed

lemma off64: "r < 64 \<Longrightarrow> (128 + r) mod 64 = (r::nat)"
proof -
  assume r: "r < 64"
  have "(128 + r) mod 64 = (2 * 64 + r) mod 64" by simp
  also have "\<dots> = r mod 64" by (simp only: mod_mult_self3)
  finally show ?thesis using r by simp
qed

lemma off16: "q < 16 \<Longrightarrow> (224 + q) mod 16 = (q::nat)"
proof -
  assume q: "q < 16"
  have "(224 + q) mod 16 = (14 * 16 + q) mod 16" by simp
  also have "\<dots> = q mod 16" by (simp only: mod_mult_self3)
  finally show ?thesis using q by simp
qed

lemma off8: "q < 8 \<Longrightarrow> (240 + q) mod 8 = (q::nat)"
proof -
  assume q: "q < 8"
  have "(240 + q) mod 8 = (30 * 8 + q) mod 8" by simp
  also have "\<dots> = q mod 8" by (simp only: mod_mult_self3)
  finally show ?thesis using q by simp
qed

lemma div_4096: "c div 4096 = c div 64 div (64::nat)"
  by (simp add: div_mult2_eq [symmetric])

lemma div_262144: "c div 262144 = c div 64 div 64 div (64::nat)"
  by (simp add: div_mult2_eq [symmetric])

lemma decode_1byte:
  assumes "c < 0x80"
  shows "utf8Decode 0 0 0 0x80 0xBF (map unat (utf8Bytes c) @ rest) =
           c # utf8Decode 0 0 0 0x80 0xBF rest"
  using assms by (simp add: utf8Bytes_def unat_byte start1)

lemma decode_2byte:
  assumes "0x80 \<le> c" "c < 0x800"
  shows "utf8Decode 0 0 0 0x80 0xBF (map unat (utf8Bytes c) @ rest) =
           c # utf8Decode 0 0 0 0x80 0xBF rest"
proof -
  define q where "q = c div 64"
  define r where "r = c mod 64"
  have c: "c = q * 64 + r" and r: "r < 64"
    by (simp_all add: q_def r_def)
  have q: "2 \<le> q" "q < 32"
    using assms by (simp_all add: q_def)
  have bytes: "map unat (utf8Bytes c) = [192 + q, 128 + r]"
    using assms q r
    by (simp add: utf8Bytes_def unat_192 unat_128 q_def [symmetric] r_def [symmetric])
  have "utf8Decode 0 0 0 0x80 0xBF ([192 + q, 128 + r] @ rest) =
      utf8Decode q 0 1 0x80 0xBF ((128 + r) # rest)"
    using q by (simp add: start2 off32)
  also have "\<dots> = (q * 64 + r) # utf8Decode 0 0 0 0x80 0xBF rest"
    using r by (subst last1) (simp_all add: off64)
  finally show ?thesis
    by (simp only: bytes c [symmetric])
qed

lemma decode_3byte:
  assumes "0x800 \<le> c" "c < 0x10000" "\<not> (0xD800 \<le> c \<and> c \<le> 0xDFFF)"
  shows "utf8Decode 0 0 0 0x80 0xBF (map unat (utf8Bytes c) @ rest) =
           c # utf8Decode 0 0 0 0x80 0xBF rest"
proof -
  define q where "q = c div 64"
  define r where "r = c mod 64"
  define q2 where "q2 = q div 64"
  define r2 where "r2 = q mod 64"
  have c: "c = q * 64 + r" and r: "r < 64"
    by (simp_all add: q_def r_def)
  have q: "q = q2 * 64 + r2" and r2: "r2 < 64"
    by (simp_all add: q2_def r2_def)
  have q2: "q2 < 16"
    using assms c q by linarith
  have lower: "32 \<le> r2" if "q2 = 0"
    using assms c q r that by simp
  have upper: "r2 < 32" if "q2 = 13"
  proof -
    have "c \<le> 0xDFFF"
      using c q r r2 that by linarith
    with assms have "c < 0xD800"
      by simp
    then show ?thesis
      using c q that by linarith
  qed
  have ns: "(0xD800 \<le> c \<and> c \<le> 0xDFFF) = False"
    using assms by simp
  have bytes: "map unat (utf8Bytes c) = [224 + q2, 128 + r2, 128 + r]"
    using assms(1,2) q2 r2 r
    by (simp add: utf8Bytes_def ns unat_224 unat_128 div_4096 q_def [symmetric]
        r_def [symmetric] q2_def [symmetric] r2_def [symmetric])
  have "utf8Decode 0 0 0 0x80 0xBF ([224 + q2, 128 + r2, 128 + r] @ rest) =
      utf8Decode q2 0 2 (if q2 = 0 then 0xA0 else 0x80) (if q2 = 13 then 0x9F else 0xBF)
        ((128 + r2) # (128 + r) # rest)"
    using q2 by (simp add: start3 off16)
  also have "\<dots> = utf8Decode (q2 * 64 + r2) 1 2 0x80 0xBF ((128 + r) # rest)"
  proof -
    have lo: "(if q2 = 0 then 0xA0 else 0x80) \<le> 128 + r2"
      using lower by simp
    have hi: "128 + r2 \<le> (if q2 = 13 then 0x9F else 0xBF)"
      using upper r2 by auto
    show ?thesis
      using r2 by (simp only: more2 [OF lo hi] off64)
  qed
  also have "\<dots> = ((q2 * 64 + r2) * 64 + r) # utf8Decode 0 0 0 0x80 0xBF rest"
    using r by (subst last2) (simp_all add: off64)
  finally show ?thesis
    by (simp only: bytes c [symmetric] q [symmetric])
qed

lemma decode_4byte:
  assumes "0x10000 \<le> c" "c < 0x110000"
  shows "utf8Decode 0 0 0 0x80 0xBF (map unat (utf8Bytes c) @ rest) =
           c # utf8Decode 0 0 0 0x80 0xBF rest"
proof -
  define q where "q = c div 64"
  define r where "r = c mod 64"
  define q2 where "q2 = q div 64"
  define r2 where "r2 = q mod 64"
  define q3 where "q3 = q2 div 64"
  define r3 where "r3 = q2 mod 64"
  have c: "c = q * 64 + r" and r: "r < 64"
    by (simp_all add: q_def r_def)
  have q: "q = q2 * 64 + r2" and r2: "r2 < 64"
    by (simp_all add: q2_def r2_def)
  have q2: "q2 = q3 * 64 + r3" and r3: "r3 < 64"
    by (simp_all add: q3_def r3_def)
  have q3: "q3 < 5"
    using assms c q q2 by linarith
  have lower: "16 \<le> r3" if "q3 = 0"
    using assms c q q2 r r2 that by linarith
  have upper: "r3 < 16" if "q3 = 4"
    using assms c q q2 that by linarith
  have bytes: "map unat (utf8Bytes c) = [240 + q3, 128 + r3, 128 + r2, 128 + r]"
    using assms q3 r3 r2 r
    by (simp add: utf8Bytes_def unat_240 unat_128 div_4096 div_262144 q_def [symmetric]
        r_def [symmetric] q2_def [symmetric] r2_def [symmetric] q3_def [symmetric]
        r3_def [symmetric])
  have "utf8Decode 0 0 0 0x80 0xBF ([240 + q3, 128 + r3, 128 + r2, 128 + r] @ rest) =
      utf8Decode q3 0 3 (if q3 = 0 then 0x90 else 0x80) (if q3 = 4 then 0x8F else 0xBF)
        ((128 + r3) # (128 + r2) # (128 + r) # rest)"
    using q3 by (simp add: start4 off8)
  also have "\<dots> = utf8Decode (q3 * 64 + r3) 1 3 0x80 0xBF ((128 + r2) # (128 + r) # rest)"
  proof -
    have lo: "(if q3 = 0 then 0x90 else 0x80) \<le> 128 + r3"
      using lower by simp
    have hi: "128 + r3 \<le> (if q3 = 4 then 0x8F else 0xBF)"
      using upper r3 by auto
    show ?thesis
      using r3 by (simp only: more3a [OF lo hi] off64)
  qed
  also have "\<dots> = utf8Decode ((q3 * 64 + r3) * 64 + r2) 2 3 0x80 0xBF ((128 + r) # rest)"
    using r2 by (subst more3b) (simp_all add: off64)
  also have "\<dots> = (((q3 * 64 + r3) * 64 + r2) * 64 + r) # utf8Decode 0 0 0 0x80 0xBF rest"
    using r by (subst last3) (simp_all add: off64)
  finally show ?thesis
    by (simp only: bytes c [symmetric] q [symmetric] q2 [symmetric])
qed

lemma decode_encoded:
  assumes "scalarValue c"
  shows "utf8Decode 0 0 0 0x80 0xBF (map unat (utf8Bytes c) @ rest) =
           c # utf8Decode 0 0 0 0x80 0xBF rest"
proof -
  consider "c < 0x80" | "0x80 \<le> c" "c < 0x800" | "0x800 \<le> c" "c < 0x10000"
    | "0x10000 \<le> c"
    by linarith
  then show ?thesis
  proof cases
    case 1
    then show ?thesis by (rule decode_1byte)
  next
    case 2
    then show ?thesis by (rule decode_2byte)
  next
    case 3
    with assms show ?thesis by (intro decode_3byte) (simp_all add: scalarValue_def)
  next
    case 4
    with assms show ?thesis by (intro decode_4byte) (simp_all add: scalarValue_def)
  qed
qed

lemma decode_encode_text:
  "list_all scalarValue s \<Longrightarrow>
   utf8Decode 0 0 0 0x80 0xBF (map unat (TextEncoder_encode s)) = s"
proof (induction s)
  case Nil
  show ?case by (simp add: TextEncoder_encode_def utf8Decode_Nil)
next
  case (Cons c s)
  have "utf8Decode 0 0 0 0x80 0xBF (map unat (utf8Bytes c) @ map unat (TextEncoder_encode s)) =
      c # utf8Decode 0 0 0 0x80 0xBF (map unat (TextEncoder_encode s))"
    using Cons.prems by (intro decode_encoded) simp
  with Cons show ?case
    by (simp add: TextEncoder_encode_def)
qed

lemma TextDecoder_TextEncoder:
  assumes "list_all scalarValue s" and "s = [] \<or> hd s \<noteq> 0xFEFF"
  shows "TextDecoder_decode (TextEncoder_encode s) = s"
  using assms by (cases s) (simp_all add: TextDecoder_decode_def decode_encode_text)

subsection \<open>The test provider\<close>

lemma hexValue_hexDigit: "n < 16 \<Longrightarrow> hexValue (hexDigit n) = n"
  by (simp add: hexValue_def hexDigit_def)

lemma hexDigit_ascii: "n < 16 \<Longrightarrow> of_char (hexDigit n) < (128::nat)"
  by (simp add: hexDigit_def)

lemma unhex_byteHex: "unhex (byteHex b @ rest) = b # unhex rest"
proof -
  have "unat b < 256"
    using unsigned_less [of b] by simp
  then have "unat b div 16 < 16"
    by simp
  then show ?thesis
    by (simp add: byteHex_def hexValue_hexDigit)
qed

lemma unhex_hex: "unhex (concat (map byteHex bs)) = bs"
  by (induction bs) (simp_all add: unhex_byteHex)

lemma hex_ascii: "list_all (\<lambda>c. of_char c < (128::nat)) (concat (map byteHex bs))"
proof (induction bs)
  case Nil
  show ?case by simp
next
  case (Cons b bs)
  have "unat b < 256"
    using unsigned_less [of b] by simp
  then have "unat b div 16 < 16"
    by simp
  with Cons show ?case
    by (simp add: byteHex_def hexDigit_ascii)
qed

lemma scalar_chars: "list_all scalarValue (map of_char (cs :: string))"
proof (induction cs)
  case Nil
  show ?case by simp
next
  case (Cons c cs)
  have "of_char c < (256::nat)"
    by simp
  then have "scalarValue (of_char c)"
    unfolding scalarValue_def by linarith
  with Cons show ?case
    by simp
qed

lemma chars_of_bytes:
  "map (\<lambda>b. char_of (unat b)) (map (\<lambda>c. of_nat (of_char c)) cs :: 8 word list) = cs"
proof (induction cs)
  case Nil
  show ?case by simp
next
  case (Cons c cs)
  have "unat (of_nat (of_char c) :: 8 word) = of_char c"
    by (rule unat_byte) simp
  with Cons show ?case
    by simp
qed

lemma hexDigits_table: "map hexDigit [0..<16] = hexDigits"
  by code_simp

lemma hexDigits_nth:
  assumes "n < 16"
  shows "hexDigits ! n = hexDigit n"
proof -
  have "hexDigits ! n = map hexDigit [0..<16] ! n"
    by (simp only: hexDigits_table)
  also have "\<dots> = hexDigit ([0..<16] ! n)"
    using assms by (intro nth_map) simp
  also have "[0..<16] ! n = n"
    using assms by (subst nth_upt) simp_all
  finally show ?thesis .
qed

lemma wireHex_byteHex: "wireHex bytes = ''0x'' @ concat (map byteHex bytes)"
proof -
  have "[hexDigits ! (unat b div 16), hexDigits ! (unat b mod 16)] = byteHex b" for b :: "8 word"
  proof -
    have "unat b < 256"
      using unsigned_less [of b] by simp
    then have "unat b div 16 < 16"
      by simp
    then show ?thesis
      by (simp add: byteHex_def hexDigits_nth)
  qed
  then show ?thesis
    by (simp add: wireHex_def)
qed

text \<open>
  What \<^verbatim>\<open>decrypt\<close> sends for the bytes of a JSON text is that text in the wallet's format:
  decoding and encoding again change nothing, and the digits are the wallet's.
\<close>

lemma hexData_json:
  assumes "jsonObjectText encryptedData"
  shows "hexData (TextEncoder_encode encryptedData) = wireHex (TextEncoder_encode encryptedData)"
proof -
  from assms have scalar: "list_all scalarValue encryptedData"
    and start: "encryptedData = [] \<or> hd encryptedData \<noteq> 0xFEFF"
    by (auto simp add: jsonObjectText_def split: list.splits)
  have "TextDecoder_decode (TextEncoder_encode encryptedData) = encryptedData"
    using scalar start by (rule TextDecoder_TextEncoder)
  then show ?thesis
    by (simp only: hexData_def wireHex_byteHex)
qed

lemma encode_ascii_text:
  "list_all (\<lambda>c. c < 128) s \<Longrightarrow> TextEncoder_encode s = map of_nat s"
  by (induction s) (simp_all add: TextEncoder_encode_def utf8Bytes_def)

lemma mock_json_ascii:
  "list_all (\<lambda>c. c < (128::nat)) (0x7B # map of_char (concat (map byteHex bs)) @ [0x7D])"
  using hex_ascii [of bs] by (simp add: list_all_iff)

lemma mockEncryptJson_json: "encryptsToJson mockEncryptJson"
proof -
  have "jsonObjectText (0x7B # map of_char (cs :: string) @ [0x7D])" for cs
    using scalar_chars [of cs] by (simp add: jsonObjectText_def scalarValue_def)
  then show ?thesis
    by (auto simp add: encryptsToJson_def mockEncryptJson_def)
qed

lemma mockProvider_consistent: "consistentProvider mockProvider mockEncryptJson owner address"
proof -
  have "eth_decrypt mockProvider
      (wireHex (TextEncoder_encode
        (0x7B # map of_char (concat (map byteHex (TextEncoder_encode plain))) @ [0x7D])))
      address = Inr (TextEncoder_encode plain)" for plain
  proof -
    let ?digits = "concat (map byteHex (TextEncoder_encode plain))"
    let ?json = "0x7B # map of_char ?digits @ [0x7D]"
    have "TextEncoder_encode ?json = map of_nat ?json"
      by (rule encode_ascii_text) (rule mock_json_ascii)
    then have payload: "TextEncoder_encode ?json =
        0x7B # map (\<lambda>c. of_nat (of_char c)) ?digits @ [0x7D]"
      by simp
    have sent: "unhex (drop 2 (wireHex bs)) = bs" for bs
      by (simp add: wireHex_byteHex unhex_hex)
    have inner: "butlast (tl (0x7B # bs @ [0x7D])) = bs" for bs :: "8 word list"
      by simp
    have "eth_decrypt mockProvider (wireHex (TextEncoder_encode ?json)) address =
        Inr (unhex (map (\<lambda>b. char_of (unat b))
          (butlast (tl (unhex (drop 2 (wireHex (TextEncoder_encode ?json))))))))"
      by (simp add: mockProvider_def)
    then show ?thesis
      by (simp only: sent payload inner chars_of_bytes unhex_hex)
  qed
  then show ?thesis
    by (simp add: consistentProvider_def mockEncryptJson_def mockProvider_def)
qed

subsection \<open>Encrypting, then decrypting\<close>

lemma decrypt_encrypt:
  assumes "consistentProvider provider encryptJson (map_option addressString (account this))
      (case account this of None \<Rightarrow> [] | Some a \<Rightarrow> addressString a)"
    and "encryptsToJson encryptJson"
  shows "\<exists>payload.
           encrypt (Inr s) provider encryptJson data this = Inr payload \<and>
           decrypt (Inr s') provider payload this =
             Inr (TextEncoder_encode (TextDecoder_decode data))"
proof -
  from assms(1) obtain publicKey where
    key: "eth_getEncryptionPublicKey provider (map_option addressString (account this)) =
          Inr publicKey"
    and inv: "\<And>plain. \<exists>encryptedData.
          encryptJson publicKey plain = Inr encryptedData \<and>
          eth_decrypt provider (wireHex (TextEncoder_encode encryptedData))
            (case account this of None \<Rightarrow> [] | Some a \<Rightarrow> addressString a) =
            Inr (TextEncoder_encode plain)"
    unfolding consistentProvider_def by blast
  from inv [of "TextDecoder_decode data"] obtain encryptedData where
    enc: "encryptJson publicKey (TextDecoder_decode data) = Inr encryptedData"
    and dec: "eth_decrypt provider (wireHex (TextEncoder_encode encryptedData))
        (case account this of None \<Rightarrow> [] | Some a \<Rightarrow> addressString a) =
        Inr (TextEncoder_encode (TextDecoder_decode data))"
    by blast
  from assms(2) enc have "jsonObjectText encryptedData"
    unfolding encryptsToJson_def by blast
  then have sent: "hexData (TextEncoder_encode encryptedData) =
      wireHex (TextEncoder_encode encryptedData)"
    by (rule hexData_json)
  have "encrypt (Inr s) provider encryptJson data this = Inr (TextEncoder_encode encryptedData)"
    by (simp add: encrypt_def key enc)
  moreover have "decrypt (Inr s') provider (TextEncoder_encode encryptedData) this =
      Inr (TextEncoder_encode (TextDecoder_decode data))"
    by (simp add: decrypt_def getActiveAddress_def sent dec)
  ultimately show ?thesis
    by blast
qed

text \<open>
  C7, as the code has it. Take a provider whose two methods are consistent for the
  adapter's account, in the wallet's own format for \<^verbatim>\<open>eth_decrypt\<close>, an encryption that
  yields the JSON text of an object, and the signer derivation resolving in both calls.
  Then \<^verbatim>\<open>encrypt\<close> resolves and \<^verbatim>\<open>decrypt\<close> of its result resolves to the bytes of the
  text that \<^verbatim>\<open>TextDecoder\<close> reads from the data. These are the original bytes when the data
  is text: the UTF-8 encoding of a string of scalar values that does not start with a byte
  order mark.
\<close>

theorem encrypt_decrypt_text:
  assumes "consistentProvider provider encryptJson (map_option addressString (account this))
      (case account this of None \<Rightarrow> [] | Some a \<Rightarrow> addressString a)"
    and "encryptsToJson encryptJson"
  shows "(\<exists>payload.
            encrypt (Inr s) provider encryptJson data this = Inr payload \<and>
            decrypt (Inr s') provider payload this =
              Inr (TextEncoder_encode (TextDecoder_decode data))) \<and>
         (list_all scalarValue str \<and> (str = [] \<or> hd str \<noteq> 0xFEFF) \<longrightarrow>
            (\<exists>payload.
               encrypt (Inr s) provider encryptJson (TextEncoder_encode str) this = Inr payload \<and>
               decrypt (Inr s') provider payload this = Inr (TextEncoder_encode str)))"
proof (intro conjI impI)
  show "\<exists>payload.
      encrypt (Inr s) provider encryptJson data this = Inr payload \<and>
      decrypt (Inr s') provider payload this =
        Inr (TextEncoder_encode (TextDecoder_decode data))"
    using assms by (rule decrypt_encrypt)
next
  assume "list_all scalarValue str \<and> (str = [] \<or> hd str \<noteq> 0xFEFF)"
  then have "TextDecoder_decode (TextEncoder_encode str) = str"
    by (simp add: TextDecoder_TextEncoder)
  with decrypt_encrypt [OF assms, of s "TextEncoder_encode str" s']
  show "\<exists>payload.
      encrypt (Inr s) provider encryptJson (TextEncoder_encode str) this = Inr payload \<and>
      decrypt (Inr s') provider payload this = Inr (TextEncoder_encode str)"
    by simp
qed

theorem encrypt_decrypt_text_witness:
  "\<exists>payload.
     encrypt (Inr (EthersSigner 7)) mockProvider mockEncryptJson [0x68, 0x69, 0xC3, 0xA9]
       \<lparr>signer = Some (EthersSigner 7), account = Some (Address ''71C7''),
        unsubscribeAccount = Some 0\<rparr> = Inr payload \<and>
     decrypt (Inr (EthersSigner 7)) mockProvider payload
       \<lparr>signer = Some (EthersSigner 7), account = Some (Address ''71C7''),
        unsubscribeAccount = Some 0\<rparr> = Inr [0x68, 0x69, 0xC3, 0xA9]"
proof -
  have bytes: "TextEncoder_encode [0x68, 0x69, 0xE9] = [0x68, 0x69, 0xC3, 0xA9]"
    by (simp add: TextEncoder_encode_def utf8Bytes_def)
  have scalar: "list_all scalarValue [0x68, 0x69, 0xE9] \<and>
      ([0x68, 0x69, 0xE9] = [] \<or> hd [0x68, 0x69, 0xE9] \<noteq> (0xFEFF::nat))"
    by (simp add: scalarValue_def)
  show ?thesis
    using encrypt_decrypt_text [OF mockProvider_consistent mockEncryptJson_json,
        where str = "[0x68, 0x69, 0xE9]" and s = "EthersSigner 7" and s' = "EthersSigner 7"
          and this = "\<lparr>signer = Some (EthersSigner 7), account = Some (Address ''71C7''),
                        unsubscribeAccount = Some 0\<rparr>"]
      scalar
    by (simp only: bytes) blast
qed

text \<open>
  C7 as stated fails: the byte \<open>0xFF\<close> is not UTF-8. With the test provider, which is
  consistent, \<^verbatim>\<open>encrypt\<close> of that byte resolves, and \<^verbatim>\<open>decrypt\<close> of the result resolves to
  the three bytes of \<open>U+FFFD\<close>, not to the original byte.
\<close>

theorem encrypt_decrypt_counterexample:
  "consistentProvider mockProvider mockEncryptJson (Some ''0x71C7'') ''0x71C7'' \<and>
   encryptsToJson mockEncryptJson \<and>
   encrypt (Inr (EthersSigner 7)) mockProvider mockEncryptJson [0xFF]
     \<lparr>signer = Some (EthersSigner 7), account = Some (Address ''71C7''),
      unsubscribeAccount = Some 0\<rparr> =
     Inr [0x7B, 0x65, 0x66, 0x62, 0x66, 0x62, 0x64, 0x7D] \<and>
   decrypt (Inr (EthersSigner 7)) mockProvider [0x7B, 0x65, 0x66, 0x62, 0x66, 0x62, 0x64, 0x7D]
     \<lparr>signer = Some (EthersSigner 7), account = Some (Address ''71C7''),
      unsubscribeAccount = Some 0\<rparr> = Inr [0xEF, 0xBF, 0xBD]"
proof -
  let ?adapter = "\<lparr>signer = Some (EthersSigner 7), account = Some (Address ''71C7''),
      unsubscribeAccount = Some 0\<rparr>"
  have decoded: "TextDecoder_decode [0xFF] = [0xFFFD]"
    by (simp add: TextDecoder_decode_def start_invalid utf8Decode_Nil)
  have encoded: "TextEncoder_encode [0xFFFD] = [0xEF, 0xBF, 0xBD]"
    by (simp add: TextEncoder_encode_def utf8Bytes_def)
  have digits: "map of_char (concat (map byteHex [0xEF, 0xBF, 0xBD])) =
      [0x65, 0x66, 0x62, 0x66, 0x62, 0x64 :: nat]"
    by (simp add: byteHex_def hexDigit_def)
  have payload: "TextEncoder_encode [0x7B, 0x65, 0x66, 0x62, 0x66, 0x62, 0x64, 0x7D] =
      [0x7B, 0x65, 0x66, 0x62, 0x66, 0x62, 0x64, 0x7D]"
    by (simp add: TextEncoder_encode_def utf8Bytes_def)
  have enc: "encrypt (Inr (EthersSigner 7)) mockProvider mockEncryptJson [0xFF] ?adapter =
      Inr [0x7B, 0x65, 0x66, 0x62, 0x66, 0x62, 0x64, 0x7D]"
  proof -
    have "mockEncryptJson ''mock-key'' [0xFFFD] =
        Inr (0x7B # [0x65, 0x66, 0x62, 0x66, 0x62, 0x64] @ [0x7D])"
      by (simp only: mockEncryptJson_def encoded digits)
    then show ?thesis
      by (simp add: encrypt_def mockProvider_def decoded payload)
  qed
  from decrypt_encrypt [OF mockProvider_consistent mockEncryptJson_json,
      where this = ?adapter and s = "EthersSigner 7" and data = "[0xFF]"
        and s' = "EthersSigner 7"]
  have "decrypt (Inr (EthersSigner 7)) mockProvider
      [0x7B, 0x65, 0x66, 0x62, 0x66, 0x62, 0x64, 0x7D] ?adapter = Inr [0xEF, 0xBF, 0xBD]"
    by (simp add: enc decoded encoded)
  with enc mockProvider_consistent mockEncryptJson_json show ?thesis
    by simp
qed

end
